theory Spec2Isabelle
  imports Complex_Main
begin

section \<open>JavaScript values\<close>

text \<open>
  The fields of a department patch, the identifiers handed to the data layer and the
  fields of a stored department are JavaScript values. The model keeps the primitive
  values the validation rules can tell apart: \<open>undefined\<close> (also the value of a property
  that is absent), \<open>null\<close>, booleans, numbers and strings. \<open>JNum n\<close> is the Number whose
  value is the integer \<open>n\<close>; \<open>JNaN\<close> is \<open>NaN\<close>.
\<close>

datatype jsval =
    JUndefined
  | JNull
  | JBool bool
  | JNum int
  | JNaN
  | JStr string

text \<open>\<open>ToBoolean\<close>: what \<open>!v\<close>, \<open>v && ...\<close> and \<open>if (v)\<close> test.\<close>

fun truthy :: "jsval \<Rightarrow> bool" where
  "truthy JUndefined = False"
| "truthy JNull = False"
| "truthy (JBool b) = b"
| "truthy (JNum n) = (n \<noteq> 0)"
| "truthy JNaN = False"
| "truthy (JStr s) = (s \<noteq> [])"

text \<open>Strict equality \<open>===\<close>: same type and same value; \<open>NaN\<close> equals nothing.\<close>

fun strictEq :: "jsval \<Rightarrow> jsval \<Rightarrow> bool" where
  "strictEq JUndefined JUndefined = True"
| "strictEq JNull JNull = True"
| "strictEq (JBool a) (JBool b) = (a = b)"
| "strictEq (JNum a) (JNum b) = (a = b)"
| "strictEq (JStr a) (JStr b) = (a = b)"
| "strictEq _ _ = False"

definition strictNeq :: "jsval \<Rightarrow> jsval \<Rightarrow> bool" where
  "strictNeq a b = (\<not> strictEq a b)"

subsection \<open>Numbers as strings\<close>

text \<open>
  \<open>Number::toString\<close> of the language standard, on integers. A Number is a double: an
  integer of more than 53 bits is first rounded to the nearest double, ties to the even
  one (\<open>toDouble\<close>), and a value of \<open>2^1024\<close> or more is \<open>Infinity\<close>. The digits
  printed are the fewest that still denote that double, and among those the closest to
  it (\<open>shortest\<close>, which tries one digit, then two, and so on). Up to 21 digits the
  value is printed in full, with zeros after the significant digits; above that in
  exponent form, as in \<open>1e+21\<close> and \<open>1.1805916207174113e+21\<close>.
\<close>

definition digitChar :: "int \<Rightarrow> char" where
  "digitChar n = ''0123456789'' ! nat (n mod 10)"

function showDigits :: "int \<Rightarrow> string" where
  "showDigits n = (if n < 10 then [digitChar n] else showDigits (n div 10) @ [digitChar n])"
  by pat_completeness auto
termination
  by (relation "measure nat") auto

function bitLength :: "int \<Rightarrow> nat" where
  "bitLength n = (if n \<le> 0 then 0 else Suc (bitLength (n div 2)))"
  by pat_completeness auto
termination
  by (relation "measure nat") auto

definition toDouble :: "int \<Rightarrow> int" where
  "toDouble m =
     (let b = bitLength m in
      if b \<le> 53 then m
      else
        let e = b - 53; q = m div 2 ^ e; r = m mod 2 ^ e; h = 2 ^ (e - 1)
        in (if h < r \<or> (r = h \<and> odd q) then q + 1 else q) * 2 ^ e)"

function shortest :: "int \<Rightarrow> int \<Rightarrow> int" where
  "shortest x p =
     (if p \<le> 1 then x
      else
        let lo = x div p; a = lo * p; b = (lo + 1) * p in
        if toDouble a = x \<and> toDouble b = x
        then (if x - a < b - x then a else if b - x < x - a then b
              else if even lo then a else b)
        else if toDouble a = x then a
        else if toDouble b = x then b
        else shortest x (p div 10))"
  by pat_completeness auto
termination
  by (relation "measure (\<lambda>(x, p). nat p)") auto

definition stripZeros :: "string \<Rightarrow> string" where
  "stripZeros ds = rev (dropWhile (\<lambda>c. c = CHR ''0'') (rev ds))"

definition exponentForm :: "string \<Rightarrow> string" where
  "exponentForm ds =
     (case stripZeros ds of
        [] \<Rightarrow> []
      | d # rest \<Rightarrow>
          (d # (if rest = [] then [] else CHR ''.'' # rest))
            @ ''e+'' @ showDigits (int (length ds) - 1))"

definition showDouble :: "int \<Rightarrow> string" where
  "showDouble n =
     (let x = toDouble n in
      if 2 ^ 1024 \<le> x then ''Infinity''
      else
        let ds = showDigits (shortest x (10 ^ (length (showDigits x) - 1))) in
        if length ds \<le> 21 then ds else exponentForm ds)"

definition numberToString :: "int \<Rightarrow> string" where
  "numberToString i = (if i < 0 then CHR ''-'' # showDouble (- i) else showDouble i)"

text \<open>\<open>ToString\<close>, as a template literal applies it.\<close>

fun toStringJS :: "jsval \<Rightarrow> string" where
  "toStringJS JUndefined = ''undefined''"
| "toStringJS JNull = ''null''"
| "toStringJS (JBool b) = (if b then ''true'' else ''false'')"
| "toStringJS (JNum n) = numberToString n"
| "toStringJS JNaN = ''NaN''"
| "toStringJS (JStr s) = s"

text \<open>\<open>Array.prototype.join\<close> on an array of strings.\<close>

fun joinStrings :: "string \<Rightarrow> string list \<Rightarrow> string" where
  "joinStrings sep [] = []"
| "joinStrings sep [x] = x"
| "joinStrings sep (x # y # ys) = x @ sep @ joinStrings sep (y # ys)"

section \<open>Faults and effects\<close>

text \<open>
  What a \<open>throw\<close> or a rejected promise carries: an \<open>Error\<close> object with its message;
  a \<open>TypeError\<close> the engine raises, with the message Node's engine gives it; any other
  object, with the value of its \<open>message\<close> property (\<open>undefined\<close> when it has none);
  or a value that is no object at all, as in \<open>throw null\<close> or a promise rejected
  without a reason (\<open>Thrown JUndefined\<close>). An \<open>async\<close> method that throws rejects its promise; awaiting a
  rejected promise throws in the caller. Both are the left summand of the result, so
  every \<open>throw\<close> and every rejected \<open>await\<close> of the source is a branch of the model.
\<close>

datatype exn = Error string | TypeError string | ThrownObject jsval | Thrown jsval

text \<open>
  \<open>error.message\<close>: the message of an error object; the property's value on another
  object; \<open>undefined\<close> on a primitive value, which has no such property; and a
  \<open>TypeError\<close> on \<open>undefined\<close> and \<open>null\<close>, of which no property can be read.
\<close>

definition readMessage :: "exn \<Rightarrow> exn + jsval" where
  "readMessage error =
     (case error of
        Error m \<Rightarrow> Inr (JStr m)
      | TypeError m \<Rightarrow> Inr (JStr m)
      | ThrownObject v \<Rightarrow> Inr v
      | Thrown v \<Rightarrow>
          if v = JUndefined
          then Inl (TypeError ''Cannot read properties of undefined (reading 'message')'')
          else if v = JNull
          then Inl (TypeError ''Cannot read properties of null (reading 'message')'')
          else Inr JUndefined)"

type_synonym ('st, 'a) prog = "'st \<Rightarrow> (exn + 'a) \<times> 'st"

definition ret :: "'a \<Rightarrow> ('st, 'a) prog" where
  "ret a = (\<lambda>st. (Inr a, st))"

definition throw :: "exn \<Rightarrow> ('st, 'a) prog" where
  "throw e = (\<lambda>st. (Inl e, st))"

definition bind :: "('st, 'a) prog \<Rightarrow> ('a \<Rightarrow> ('st, 'b) prog) \<Rightarrow> ('st, 'b) prog" where
  "bind m f = (\<lambda>st. case m st of (Inl e, st') \<Rightarrow> (Inl e, st') | (Inr a, st') \<Rightarrow> f a st')"

text \<open>An operation that returns or throws without touching the state.\<close>

definition outcome :: "exn + 'a \<Rightarrow> ('st, 'a) prog" where
  "outcome r = (\<lambda>st. (r, st))"

text \<open>
  \<open>try { body } catch (error) { handler }\<close>: the handler runs in the state the body had
  reached when it threw, and what the handler itself throws is not caught.
\<close>

definition tryCatch :: "('st, 'a) prog \<Rightarrow> (exn \<Rightarrow> ('st, 'a) prog) \<Rightarrow> ('st, 'a) prog" where
  "tryCatch body handler =
     (\<lambda>st. case body st of (Inl e, st') \<Rightarrow> handler e st' | (Inr a, st') \<Rightarrow> (Inr a, st'))"

section \<open>Records of the data layer\<close>

text \<open>
  Modelled from the spec: the \<open>Department\<close> record handle. Its class belongs to the data
  layer and is not part of the source; the spec (External interfaces) gives it field
  getters (\<open>getId\<close>, \<open>getDeptNo\<close>, ...) and the setters \<open>setDeptName\<close>, \<open>setDeptNo\<close>
  and \<open>setLocation\<close>, which mutate the handle in memory. Each getter reads one field and
  each setter writes that one field.
\<close>

record department =
  deptCompany :: jsval
  deptId :: jsval
  deptName :: jsval
  deptNo :: jsval
  deptLocation :: jsval

definition getId :: "department \<Rightarrow> jsval" where
  "getId dept = deptId dept"

definition getDeptNo :: "department \<Rightarrow> jsval" where
  "getDeptNo dept = deptNo dept"

definition getDeptName :: "department \<Rightarrow> jsval" where
  "getDeptName dept = deptName dept"

definition getLocation :: "department \<Rightarrow> jsval" where
  "getLocation dept = deptLocation dept"

definition setDeptName :: "jsval \<Rightarrow> department \<Rightarrow> department" where
  "setDeptName v dept = dept\<lparr>deptName := v\<rparr>"

definition setDeptNo :: "jsval \<Rightarrow> department \<Rightarrow> department" where
  "setDeptNo v dept = dept\<lparr>deptNo := v\<rparr>"

definition setLocation :: "jsval \<Rightarrow> department \<Rightarrow> department" where
  "setLocation v dept = dept\<lparr>deptLocation := v\<rparr>"

text \<open>
  A department patch: an object whose properties may be absent (\<open>JUndefined\<close>).
\<close>

record deptData =
  dept_id :: jsval
  company :: jsval
  dept_no :: jsval
  dept_name :: jsval
  location :: jsval

text \<open>
  What a caller can hand to \<open>validateDepartmentUpdate\<close> and \<open>updateDepartment\<close> as
  \<open>deptData\<close>: a patch object, or \<open>undefined\<close> (also when the argument is left out) or
  \<open>null\<close>. Reading a property of \<open>undefined\<close> or \<open>null\<close> is a \<open>TypeError\<close>;
  \<open>asObject deptData prop\<close> is the object on which the property \<open>prop\<close> is read. A
  number, string or boolean handed in as \<open>deptData\<close> has none of the five properties,
  and is the patch object whose fields are all \<open>undefined\<close>.
\<close>

datatype patchArg = ArgUndefined | ArgNull | ArgObject deptData

definition asObject :: "patchArg \<Rightarrow> string \<Rightarrow> ('st, deptData) prog" where
  "asObject deptData prop =
     (case deptData of
        ArgObject d \<Rightarrow> ret d
      | ArgUndefined \<Rightarrow>
          throw (TypeError (''Cannot read properties of undefined (reading ''
                            @ [CHR 0x27] @ prop @ [CHR 0x27] @ '')''))
      | ArgNull \<Rightarrow>
          throw (TypeError (''Cannot read properties of null (reading ''
                            @ [CHR 0x27] @ prop @ [CHR 0x27] @ '')'')))"

section \<open>The data-access port\<close>

text \<open>
  \<open>this.dataLayer\<close>. Each operation is asynchronous: awaited, it returns a value or
  throws, and it may change the store \<open>'s\<close> behind the port. A lookup returns a record or
  nothing (\<open>null\<close>/\<open>undefined\<close>, which \<open>!x\<close> detects). \<open>'e\<close> is the type of employee
  records, of which the source only tests the presence.
\<close>

record ('s, 'e) dataLayer =
  getDepartment :: "jsval \<Rightarrow> jsval \<Rightarrow> 's \<Rightarrow> (exn + department option) \<times> 's"
  getAllDepartment :: "jsval \<Rightarrow> 's \<Rightarrow> (exn + department list) \<times> 's"
  dlUpdateDepartment :: "department \<Rightarrow> 's \<Rightarrow> (exn + department) \<times> 's"
  getEmployee :: "jsval \<Rightarrow> 's \<Rightarrow> (exn + 'e option) \<times> 's"

text \<open>
  The calls a method issues to the port are recorded in order, next to the store, so that
  "no query is issued" and "the record passed to the update operation" can be stated.
\<close>

datatype call =
    GetDepartment jsval jsval
  | GetAllDepartment jsval
  | UpdateDepartment department
  | GetEmployee jsval

type_synonym 's world = "call list \<times> 's"

definition invoke :: "call \<Rightarrow> ('s \<Rightarrow> (exn + 'a) \<times> 's) \<Rightarrow> ('s world, 'a) prog" where
  "invoke c f = (\<lambda>(tr, s). case f s of (r, s') \<Rightarrow> (r, (tr @ [c], s')))"

definition callGetDepartment :: "('s, 'e) dataLayer \<Rightarrow> jsval \<Rightarrow> jsval \<Rightarrow> ('s world, department option) prog" where
  "callGetDepartment dl c i = invoke (GetDepartment c i) (getDepartment dl c i)"

definition callGetAllDepartment :: "('s, 'e) dataLayer \<Rightarrow> jsval \<Rightarrow> ('s world, department list) prog" where
  "callGetAllDepartment dl c = invoke (GetAllDepartment c) (getAllDepartment dl c)"

definition callUpdateDepartment :: "('s, 'e) dataLayer \<Rightarrow> department \<Rightarrow> ('s world, department) prog" where
  "callUpdateDepartment dl dept = invoke (UpdateDepartment dept) (dlUpdateDepartment dl dept)"

definition callGetEmployee :: "('s, 'e) dataLayer \<Rightarrow> jsval \<Rightarrow> ('s world, 'e option) prog" where
  "callGetEmployee dl i = invoke (GetEmployee i) (getEmployee dl i)"

section \<open>validateDepartmentUpdate\<close>

text \<open>
  The result object \<open>{ valid, errors }\<close> or \<open>{ valid, errors, existingDept }\<close>;
  \<open>existingDept = None\<close> is the object without that property.
\<close>

record validationResult =
  valid :: bool
  errors :: "string list"
  existingDept :: "department option"

text \<open>
  The method owns the array \<open>errors\<close>, declared before the \<open>try\<close> and pushed to inside
  it; the catch block pushes to the same array. The state of the method body is therefore
  the array together with the world.
\<close>

type_synonym 's vstate = "string list \<times> 's world"

definition push :: "string \<Rightarrow> ('s vstate, unit) prog" where
  "push msg = (\<lambda>(errs, w). (Inr (), (errs @ [msg], w)))"

definition getErrors :: "('s vstate, string list) prog" where
  "getErrors = (\<lambda>(errs, w). (Inr errs, (errs, w)))"

definition inWorld :: "('s world, 'a) prog \<Rightarrow> ('s vstate, 'a) prog" where
  "inWorld m = (\<lambda>(errs, w). case m w of (r, w') \<Rightarrow> (r, (errs, w')))"

text \<open>
  Lines 12 to 14: the required-fields check. It stands before the \<open>try\<close>, so the
  \<open>TypeError\<close> of reading \<open>deptData.dept_id\<close> on \<open>undefined\<close> or \<open>null\<close> is not
  caught.
\<close>

definition requiredFields :: "patchArg \<Rightarrow> ('s vstate, unit) prog" where
  "requiredFields deptData =
     bind (asObject deptData ''dept_id'') (\<lambda>d.
       if \<not> truthy (dept_id d) \<or> \<not> truthy (company d)
       then push ''Department ID and company name are required''
       else ret ())"

text \<open>Lines 28 to 31: \<open>!allDepartments.some(dept => ...)\<close>.\<close>

definition isDeptNoUnique :: "deptData \<Rightarrow> department list \<Rightarrow> bool" where
  "isDeptNoUnique d allDepartments =
     (\<not> list_ex (\<lambda>dept. strictEq (getDeptNo dept) (dept_no d) \<and> strictNeq (getId dept) (dept_id d))
          allDepartments)"

text \<open>Lines 24 to 36: the uniqueness check, run only when \<open>dept_no\<close> is being changed.\<close>

definition checkDeptNo :: "('s, 'e) dataLayer \<Rightarrow> deptData \<Rightarrow> department \<Rightarrow> ('s vstate, unit) prog" where
  "checkDeptNo dl d existing =
     (if truthy (dept_no d) \<and> strictNeq (dept_no d) (getDeptNo existing)
      then bind (inWorld (callGetAllDepartment dl (company d))) (\<lambda>allDepartments.
             if \<not> isDeptNoUnique d allDepartments
             then push ''Department number must be unique across all companies''
             else ret ())
      else ret ())"

text \<open>Lines 17 to 42: the body of the \<open>try\<close>.\<close>

definition tryBody :: "('s, 'e) dataLayer \<Rightarrow> patchArg \<Rightarrow> ('s vstate, validationResult) prog" where
  "tryBody dl deptData =
     bind (asObject deptData ''company'') (\<lambda>d.
     bind (inWorld (callGetDepartment dl (company d) (dept_id d))) (\<lambda>found.
       case found of
         None \<Rightarrow>
           bind (push ''Department not found'') (\<lambda>_.
           bind getErrors (\<lambda>errs.
           ret \<lparr>valid = False, errors = errs, existingDept = None\<rparr>))
       | Some existing \<Rightarrow>
           bind (checkDeptNo dl d existing) (\<lambda>_.
           bind getErrors (\<lambda>errs.
           ret \<lparr>valid = (length errs = 0), errors = errs, existingDept = Some existing\<rparr>))))"

text \<open>
  Lines 43 to 46: the catch block. Reading \<open>error.message\<close> can itself throw, and
  nothing catches that.
\<close>

definition catchBlock :: "exn \<Rightarrow> ('s vstate, validationResult) prog" where
  "catchBlock error =
     bind (outcome (readMessage error)) (\<lambda>msg.
     bind (push (''Validation error: '' @ toStringJS msg)) (\<lambda>_.
     bind getErrors (\<lambda>errs.
     ret \<lparr>valid = False, errors = errs, existingDept = None\<rparr>)))"

definition validateDepartmentUpdate ::
  "('s, 'e) dataLayer \<Rightarrow> patchArg \<Rightarrow> ('s world, validationResult) prog" where
  "validateDepartmentUpdate dl deptData =
     (\<lambda>w. case bind (requiredFields deptData)
                   (\<lambda>_. tryCatch (tryBody dl deptData) catchBlock) ([], w) of
             (r, (errs, w')) \<Rightarrow> (r, w'))"

section \<open>updateDepartment\<close>

text \<open>
  Lines 49 to 65. The setters change the handle in place; the model hands the changed
  record on to the data layer, which is all the method does with it. A result with
  \<open>valid\<close> set always carries \<open>existingDept\<close> (lemma \<open>valid_has_existingDept\<close> below),
  so the branch for a missing handle is never run; there JavaScript would dereference
  \<open>undefined\<close>, which is a \<open>TypeError\<close>.
\<close>

definition applyPatch :: "deptData \<Rightarrow> department \<Rightarrow> department" where
  "applyPatch d existing =
     (let e1 = (if truthy (dept_name d) then setDeptName (dept_name d) existing else existing);
          e2 = (if truthy (dept_no d) then setDeptNo (dept_no d) e1 else e1);
          e3 = (if truthy (location d) then setLocation (location d) e2 else e2)
      in e3)"

definition updateDepartment ::
  "('s, 'e) dataLayer \<Rightarrow> patchArg \<Rightarrow> ('s world, department) prog" where
  "updateDepartment dl deptData =
     bind (validateDepartmentUpdate dl deptData) (\<lambda>validationResult.
       if \<not> valid validationResult
       then throw (Error (''Validation failed: '' @ joinStrings '', '' (errors validationResult)))
       else
         bind (asObject deptData ''dept_name'') (\<lambda>d.
           case existingDept validationResult of
             None \<Rightarrow> throw (TypeError ''Cannot read properties of undefined'')
           | Some existing \<Rightarrow> callUpdateDepartment dl (applyPatch d existing)))"

section \<open>validateManager\<close>

text \<open>Lines 74 to 81.\<close>

definition validateManager :: "('s, 'e) dataLayer \<Rightarrow> jsval \<Rightarrow> ('s world, unit) prog" where
  "validateManager dl mngId =
     (if strictEq mngId (JNum 0) then ret ()
      else bind (callGetEmployee dl mngId) (\<lambda>manager.
             case manager of
               None \<Rightarrow> throw (Error (''Invalid manager ID: '' @ toStringJS mngId @ ''.''))
             | Some _ \<Rightarrow> ret ()))"

section \<open>Dates\<close>

text \<open>
  The time value of a \<open>Date\<close> is a number of milliseconds since the epoch; \<open>Day\<close>,
  \<open>DayFromYear\<close>, \<open>YearFromTime\<close>, \<open>MonthFromTime\<close>, \<open>DateFromTime\<close>, \<open>WeekDay\<close>,
  \<open>HourFromTime\<close>, \<open>MakeTime\<close>, \<open>MakeDay\<close> and \<open>MakeDate\<close> are the operations by which the
  language standard defines the methods of \<open>Date\<close>. Months count from 0; weekday 0 is
  Sunday. The time values that occur (the current instant, dates with a four-digit year)
  lie well inside the range a \<open>Date\<close> can hold, so the clipping of out-of-range values is
  left out.
\<close>

definition msPerDay :: int where "msPerDay = 86400000"
definition msPerHour :: int where "msPerHour = 3600000"
definition msPerMinute :: int where "msPerMinute = 60000"
definition msPerSecond :: int where "msPerSecond = 1000"

definition Day :: "int \<Rightarrow> int" where
  "Day t = t div msPerDay"

definition TimeWithinDay :: "int \<Rightarrow> int" where
  "TimeWithinDay t = t mod msPerDay"

definition DaysInYear :: "int \<Rightarrow> int" where
  "DaysInYear y =
     (if y mod 4 \<noteq> 0 then 365 else if y mod 100 \<noteq> 0 then 366
      else if y mod 400 \<noteq> 0 then 365 else 366)"

definition DayFromYear :: "int \<Rightarrow> int" where
  "DayFromYear y =
     365 * (y - 1970) + (y - 1969) div 4 - (y - 1901) div 100 + (y - 1601) div 400"

text \<open>
  The year of a day number: the estimate by the mean length of a year is off by at most
  one, which the two comparisons repair.
\<close>

definition YearFromDay :: "int \<Rightarrow> int" where
  "YearFromDay d =
     (let y = 1970 + (d * 400) div 146097
      in if d < DayFromYear y then y - 1
         else if DayFromYear (y + 1) \<le> d then y + 1
         else y)"

definition YearFromTime :: "int \<Rightarrow> int" where
  "YearFromTime t = YearFromDay (Day t)"

definition leapDay :: "int \<Rightarrow> int" where
  "leapDay y = (if DaysInYear y = 366 then 1 else 0)"

definition InLeapYear :: "int \<Rightarrow> int" where
  "InLeapYear t = leapDay (YearFromTime t)"

definition DayWithinYear :: "int \<Rightarrow> int" where
  "DayWithinYear t = Day t - DayFromYear (YearFromTime t)"

text \<open>
  \<open>monthStart m l\<close> is the day within the year on which month \<open>m\<close> begins (\<open>l\<close> is 1 in
  a leap year), and \<open>monthOfDay\<close> the month a day within the year falls in.
\<close>

definition monthStart :: "int \<Rightarrow> int \<Rightarrow> int" where
  "monthStart m l =
     (if m = 0 then 0 else if m = 1 then 31 else if m = 2 then 59 + l
      else if m = 3 then 90 + l else if m = 4 then 120 + l else if m = 5 then 151 + l
      else if m = 6 then 181 + l else if m = 7 then 212 + l else if m = 8 then 243 + l
      else if m = 9 then 273 + l else if m = 10 then 304 + l else 334 + l)"

definition monthOfDay :: "int \<Rightarrow> int \<Rightarrow> int" where
  "monthOfDay d l =
     (if d < 31 then 0 else if d < 59 + l then 1 else if d < 90 + l then 2
      else if d < 120 + l then 3 else if d < 151 + l then 4 else if d < 181 + l then 5
      else if d < 212 + l then 6 else if d < 243 + l then 7 else if d < 273 + l then 8
      else if d < 304 + l then 9 else if d < 334 + l then 10 else 11)"

definition MonthFromTime :: "int \<Rightarrow> int" where
  "MonthFromTime t = monthOfDay (DayWithinYear t) (InLeapYear t)"

definition DateFromTime :: "int \<Rightarrow> int" where
  "DateFromTime t = DayWithinYear t - monthStart (MonthFromTime t) (InLeapYear t) + 1"

definition WeekDay :: "int \<Rightarrow> int" where
  "WeekDay t = (Day t + 4) mod 7"

definition HourFromTime :: "int \<Rightarrow> int" where
  "HourFromTime t = (t div msPerHour) mod 24"

definition MakeTime :: "int \<Rightarrow> int \<Rightarrow> int \<Rightarrow> int \<Rightarrow> int" where
  "MakeTime h m s ms = h * msPerHour + m * msPerMinute + s * msPerSecond + ms"

definition MakeDay :: "int \<Rightarrow> int \<Rightarrow> int \<Rightarrow> int" where
  "MakeDay year month date =
     (let ym = year + month div 12; mn = month mod 12
      in DayFromYear ym + monthStart mn (leapDay ym) + date - 1)"

definition MakeDate :: "int \<Rightarrow> int \<Rightarrow> int" where
  "MakeDate day time = day * msPerDay + time"

definition daysInMonth :: "int \<Rightarrow> int \<Rightarrow> int" where
  "daysInMonth y m =
     (if m = 2 then 28 + leapDay y
      else if m = 4 \<or> m = 6 \<or> m = 9 \<or> m = 11 then 30 else 31)"

section \<open>The host: clock, time zone and Date parsing\<close>

text \<open>
  What the methods read from the host. \<open>now\<close> is the time value of \<open>new Date()\<close> and of
  \<open>moment()\<close>. \<open>localTZA\<close> is the offset of local time from UTC in milliseconds, taken
  as fixed over the days a call looks at. \<open>hostParse\<close> is how the host's \<open>Date\<close>
  constructor reads a string that is not of the form \<open>YYYY-MM-DDTHH:mm:ss\<close> with valid
  fields (\<open>None\<close> is the invalid date, whose time value is \<open>NaN\<close>): the standard leaves
  that to the implementation. A string of that form is read as local time.
\<close>

record env =
  now :: int
  localTZA :: int
  hostParse :: "string \<Rightarrow> int option"

definition LocalTime :: "env \<Rightarrow> int \<Rightarrow> int" where
  "LocalTime env t = t + localTZA env"

definition UTC :: "env \<Rightarrow> int \<Rightarrow> int" where
  "UTC env t = t - localTZA env"

text \<open>Methods of a valid \<open>Date\<close>, on its time value.\<close>

definition getDay :: "env \<Rightarrow> int \<Rightarrow> int" where
  "getDay env tv = WeekDay (LocalTime env tv)"

definition getHours :: "env \<Rightarrow> int \<Rightarrow> int" where
  "getHours env tv = HourFromTime (LocalTime env tv)"

definition getDate :: "env \<Rightarrow> int \<Rightarrow> int" where
  "getDate env tv = DateFromTime (LocalTime env tv)"

definition getMonth :: "env \<Rightarrow> int \<Rightarrow> int" where
  "getMonth env tv = MonthFromTime (LocalTime env tv)"

definition getFullYear :: "env \<Rightarrow> int \<Rightarrow> int" where
  "getFullYear env tv = YearFromTime (LocalTime env tv)"

definition setDate :: "env \<Rightarrow> int \<Rightarrow> int \<Rightarrow> int" where
  "setDate env tv dt =
     (let t = LocalTime env tv
      in UTC env (MakeDate (MakeDay (YearFromTime t) (MonthFromTime t) dt) (TimeWithinDay t)))"

definition setHours :: "env \<Rightarrow> int \<Rightarrow> int \<Rightarrow> int \<Rightarrow> int \<Rightarrow> int \<Rightarrow> int" where
  "setHours env tv h m s ms =
     (let t = LocalTime env tv in UTC env (MakeDate (Day t) (MakeTime h m s ms)))"

text \<open>Reading fixed-width decimal fields.\<close>

definition digitVal :: "char \<Rightarrow> int option" where
  "digitVal c =
     map_of [(CHR ''0'', 0), (CHR ''1'', 1), (CHR ''2'', 2), (CHR ''3'', 3), (CHR ''4'', 4),
             (CHR ''5'', 5), (CHR ''6'', 6), (CHR ''7'', 7), (CHR ''8'', 8), (CHR ''9'', 9)] c"

fun digitsVal :: "int \<Rightarrow> string \<Rightarrow> int option" where
  "digitsVal acc [] = Some acc"
| "digitsVal acc (c # cs) =
     (case digitVal c of None \<Rightarrow> None | Some v \<Rightarrow> digitsVal (10 * acc + v) cs)"

definition validYMD :: "int \<Rightarrow> int \<Rightarrow> int \<Rightarrow> bool" where
  "validYMD y m d = (1 \<le> m \<and> m \<le> 12 \<and> 1 \<le> d \<and> d \<le> daysInMonth y m)"

definition parseYMD :: "string \<Rightarrow> (int \<times> int \<times> int) option" where
  "parseYMD str =
     (if length str = 10 \<and> str ! 4 = CHR ''-'' \<and> str ! 7 = CHR ''-'' then
        (case (digitsVal 0 (take 4 str), digitsVal 0 (take 2 (drop 5 str)),
               digitsVal 0 (drop 8 str)) of
           (Some y, Some m, Some d) \<Rightarrow> if validYMD y m d then Some (y, m, d) else None
         | _ \<Rightarrow> None)
      else None)"

definition parseHMS :: "string \<Rightarrow> (int \<times> int \<times> int) option" where
  "parseHMS str =
     (if length str = 8 \<and> str ! 2 = CHR '':'' \<and> str ! 5 = CHR '':'' then
        (case (digitsVal 0 (take 2 str), digitsVal 0 (take 2 (drop 3 str)),
               digitsVal 0 (drop 6 str)) of
           (Some h, Some m, Some s) \<Rightarrow>
             if h \<le> 23 \<and> m \<le> 59 \<and> s \<le> 59 then Some (h, m, s) else None
         | _ \<Rightarrow> None)
      else None)"

definition localDateTime :: "env \<Rightarrow> int \<times> int \<times> int \<Rightarrow> int \<times> int \<times> int \<Rightarrow> int" where
  "localDateTime env ymd hms =
     (case (ymd, hms) of
        ((y, m, d), (h, mi, s)) \<Rightarrow> UTC env (MakeDate (MakeDay y (m - 1) d) (MakeTime h mi s 0)))"

text \<open>\<open>new Date(str)\<close>.\<close>

definition newDate :: "env \<Rightarrow> string \<Rightarrow> int option" where
  "newDate env str =
     (if length str = 19 \<and> str ! 10 = CHR ''T'' then
        (case (parseYMD (take 10 str), parseHMS (drop 11 str)) of
           (Some ymd, Some hms) \<Rightarrow> Some (localDateTime env ymd hms)
         | _ \<Rightarrow> hostParse env str)
      else hostParse env str)"

text \<open>\<open>str.replace(a, b)\<close> with a string pattern: only the first occurrence is replaced.\<close>

fun replaceFirst :: "char \<Rightarrow> char \<Rightarrow> string \<Rightarrow> string" where
  "replaceFirst a b [] = []"
| "replaceFirst a b (c # cs) = (if c = a then b # cs else c # replaceFirst a b cs)"

section \<open>validateHireDate\<close>

text \<open>
  Lines 83 to 92. \<open>moment(hireDate, "YYYY-MM-DD", true)\<close> parses strictly: the whole string
  must be four digits, a hyphen, two digits, a hyphen and two digits, and the fields must
  name a day of the calendar; the moment is then local midnight of that day. A moment is
  its time value, \<open>None\<close> when invalid. \<open>isAfter\<close> compares time values, and
  \<open>isoWeekday\<close> is 1 for Monday up to 7 for Sunday (\<open>NaN\<close> for an invalid moment).
\<close>

definition momentStrict :: "env \<Rightarrow> string \<Rightarrow> int option" where
  "momentStrict env str =
     (case parseYMD str of
        None \<Rightarrow> None
      | Some ymd \<Rightarrow> Some (localDateTime env ymd (0, 0, 0)))"

definition isValid :: "int option \<Rightarrow> bool" where
  "isValid m = (m \<noteq> None)"

definition isAfter :: "int option \<Rightarrow> int option \<Rightarrow> bool" where
  "isAfter a b = (case (a, b) of (Some x, Some y) \<Rightarrow> x > y | _ \<Rightarrow> False)"

definition isoWeekday :: "env \<Rightarrow> int option \<Rightarrow> int option" where
  "isoWeekday env m =
     (case m of None \<Rightarrow> None
      | Some t \<Rightarrow> Some (if getDay env t = 0 then 7 else getDay env t))"

definition geNum :: "int option \<Rightarrow> int \<Rightarrow> bool" where
  "geNum a n = (case a of None \<Rightarrow> False | Some x \<Rightarrow> x \<ge> n)"

definition validateHireDate :: "env \<Rightarrow> string \<Rightarrow> exn + unit" where
  "validateHireDate env hireDate =
     (let date = momentStrict env hireDate in
      if \<not> isValid date \<or> isAfter date (Some (now env))
      then Inl (Error ''Hire date must be a valid date and cannot be in the future.'')
      else
        let dayOfWeek = isoWeekday env date in
        if geNum dayOfWeek 6
        then Inl (Error ''Hire date must be a Monday through Friday. Weekends are not allowed.'')
        else Inr ())"

section \<open>validateStartTime\<close>

text \<open>
  Lines 108 to 144. The loop of lines 132 to 134 walks \<open>prevMonday\<close> back one day at a
  time until it is a Monday; each step moves the weekday one back, so at most six steps
  are taken. The three \<open>console.log\<close> calls only print and are left out.
\<close>

function prevMondayLoop :: "env \<Rightarrow> int \<Rightarrow> int" where
  "prevMondayLoop env prevMonday =
     (if getDay env prevMonday \<noteq> 1
      then prevMondayLoop env (setDate env prevMonday (getDate env prevMonday - 1))
      else prevMonday)"
  by pat_completeness auto

lemma monthOfDay_range: "0 \<le> monthOfDay d l \<and> monthOfDay d l \<le> 11"
  by (simp add: monthOfDay_def)

lemma MakeDay_previous:
  "MakeDay (YearFromTime t) (MonthFromTime t) (DateFromTime t - 1) = Day t - 1"
proof -
  have r: "0 \<le> MonthFromTime t" "MonthFromTime t \<le> 11"
    using monthOfDay_range [of "DayWithinYear t" "InLeapYear t"] by (simp_all add: MonthFromTime_def)
  then have "MonthFromTime t div 12 = 0" and "MonthFromTime t mod 12 = MonthFromTime t"
    by simp_all
  then show ?thesis
    by (simp add: MakeDay_def DateFromTime_def DayWithinYear_def InLeapYear_def)
qed

lemma setDate_previous: "setDate env tv (getDate env tv - 1) = tv - msPerDay"
proof -
  have "(t div msPerDay - 1) * msPerDay + t mod msPerDay = t - msPerDay" for t :: int
    by (simp add: algebra_simps)
  then show ?thesis
    by (simp add: setDate_def getDate_def MakeDay_previous MakeDate_def Day_def
        TimeWithinDay_def UTC_def LocalTime_def)
qed

lemma getDay_previous: "getDay env (tv - msPerDay) = (getDay env tv + 6) mod 7"
proof -
  have "(tv + localTZA env - msPerDay) div msPerDay = (tv + localTZA env) div msPerDay - 1"
    by (simp add: msPerDay_def)
  then have "Day (tv - msPerDay + localTZA env) = Day (tv + localTZA env) - 1"
    by (simp add: Day_def algebra_simps)
  then show ?thesis
    by (simp add: getDay_def WeekDay_def LocalTime_def) presburger
qed

termination prevMondayLoop
proof (relation "measure (\<lambda>(env, tv). nat ((getDay env tv + 6) mod 7))")
  show "wf (measure (\<lambda>(env, tv). nat ((getDay env tv + 6) mod 7)))" by simp
next
  fix env :: env and prevMonday :: int
  assume "getDay env prevMonday \<noteq> 1"
  moreover have "0 \<le> getDay env prevMonday" "getDay env prevMonday < 7"
    by (simp_all add: getDay_def WeekDay_def)
  ultimately have "((getDay env prevMonday + 6) mod 7 + 6) mod 7 < (getDay env prevMonday + 6) mod 7"
    by presburger
  then show "((env, setDate env prevMonday (getDate env prevMonday - 1)), (env, prevMonday))
      \<in> measure (\<lambda>(env, tv). nat ((getDay env tv + 6) mod 7))"
    by (simp add: setDate_previous getDay_previous)
qed

definition validateStartTime :: "env \<Rightarrow> string \<Rightarrow> exn + unit" where
  "validateStartTime env startTime =
     (case newDate env (replaceFirst CHR '' '' CHR ''T'' startTime) of
        None \<Rightarrow> Inl (Error ''Invalid start time format.'')
      | Some startDate \<Rightarrow>
          let weekday = getDay env startDate in
          if weekday = 0 \<or> weekday = 6
          then Inl (Error ''Start time cannot be on weekend.'')
          else
            let startHour = getHours env startDate in
            if startHour < 8 \<or> startHour > 18
            then Inl (Error ''Start time must be between 08:00 and 18:00.'')
            else
              let currentDate = now env;
                  prevMonday = setHours env (prevMondayLoop env currentDate) 0 0 0 0
              in if startDate < prevMonday \<or> startDate > currentDate
                 then Inl (Error ''Start time must be between current date and previous Monday.'')
                 else Inr ())"

section \<open>validateEndTime\<close>

text \<open>
  Lines 146 to 172. \<open>startDate\<close> may be the invalid date: then the difference of line 155
  and the fields of lines 161 to 163 are \<open>NaN\<close>, for which \<open><\<close> is false and \<open>!==\<close>
  is true. The quotient of line 155 is compared with 1 exactly; on differences of time
  values the floating-point quotient compares with 1 the same way.
\<close>

definition hoursBetween :: "int option \<Rightarrow> int option \<Rightarrow> rat option" where
  "hoursBetween endDate startDate =
     (case (endDate, startDate) of
        (Some e, Some s) \<Rightarrow> Some (of_int (e - s) / of_int (1000 * 60 * 60))
      | _ \<Rightarrow> None)"

definition ltNum :: "rat option \<Rightarrow> rat \<Rightarrow> bool" where
  "ltNum a b = (case a of None \<Rightarrow> False | Some x \<Rightarrow> x < b)"

definition neNum :: "int option \<Rightarrow> int option \<Rightarrow> bool" where
  "neNum a b = (case (a, b) of (Some x, Some y) \<Rightarrow> x \<noteq> y | _ \<Rightarrow> True)"

definition validateEndTime :: "env \<Rightarrow> string \<Rightarrow> string \<Rightarrow> exn + unit" where
  "validateEndTime env startTime endTime =
     (let startDate = newDate env startTime;
          endDate = newDate env endTime
      in case endDate of
           None \<Rightarrow> Inl (Error ''Invalid end time format.'')
         | Some endValue \<Rightarrow>
             let hourDiff = hoursBetween endDate startDate in
             if ltNum hourDiff 1
             then Inl (Error ''End time must be at least 1 hour after start time.'')
             else if neNum (map_option (getDate env) startDate) (map_option (getDate env) endDate) \<or>
                     neNum (map_option (getMonth env) startDate) (map_option (getMonth env) endDate) \<or>
                     neNum (map_option (getFullYear env) startDate)
                       (map_option (getFullYear env) endDate)
             then Inl (Error ''End time must be on the same day as start time.'')
             else
               let endHour = getHours env endValue in
               if endHour < 8 \<or> endHour > 18
               then Inl (Error ''End time must be between 08:00 and 18:00.'')
               else Inr ())"

section \<open>What the result of validateDepartmentUpdate is made of\<close>

text \<open>
  The entries the method can push, named so that its results can be stated: the entry of
  the required-fields check (lines 12 to 14) and the entry of the uniqueness check (lines
  33 to 35).
\<close>

definition requiredErrors :: "deptData \<Rightarrow> string list" where
  "requiredErrors d =
     (if \<not> truthy (dept_id d) \<or> \<not> truthy (company d)
      then [''Department ID and company name are required''] else [])"

definition uniqueErrors :: "deptData \<Rightarrow> department list \<Rightarrow> string list" where
  "uniqueErrors d allDepartments =
     (if \<not> isDeptNoUnique d allDepartments
      then [''Department number must be unique across all companies''] else [])"

text \<open>
  The uniqueness check of lines 25 to 36 issues its query and the query throws.
\<close>

definition queryThrows :: "('s, 'e) dataLayer \<Rightarrow> deptData \<Rightarrow> department \<Rightarrow> 's \<Rightarrow> bool" where
  "queryThrows dl d ex s1 =
     (truthy (dept_no d) \<and> strictNeq (dept_no d) (getDeptNo ex) \<and>
      isl (fst (getAllDepartment dl (company d) s1)))"


section \<open>Sample data layers\<close>

text \<open>
  Three departments of one company, two of which share the number \<open>D10\<close>; a data layer
  that keeps its departments in a list; one whose every operation throws; one whose
  lookup works while its query for all departments throws; and one whose lookup rejects
  without a reason, so that what the caller catches is \<open>undefined\<close>.
\<close>

definition acmeSales :: department where
  "acmeSales = \<lparr>deptCompany = JStr ''acme'', deptId = JNum 1, deptName = JStr ''Sales'',
                 deptNo = JStr ''D10'', deptLocation = JStr ''Boston''\<rparr>"

definition acmeOps :: department where
  "acmeOps = \<lparr>deptCompany = JStr ''acme'', deptId = JNum 2, deptName = JStr ''Ops'',
               deptNo = JStr ''D20'', deptLocation = JStr ''Austin''\<rparr>"

definition acmeLab :: department where
  "acmeLab = \<lparr>deptCompany = JStr ''acme'', deptId = JNum 3, deptName = JStr ''Lab'',
               deptNo = JStr ''D10'', deptLocation = JStr ''Denver''\<rparr>"

definition memoryLayer :: "(department list, string) dataLayer" where
  "memoryLayer =
     \<lparr>getDepartment = (\<lambda>c i s. (Inr (find (\<lambda>x. deptCompany x = c \<and> deptId x = i) s), s)),
      getAllDepartment = (\<lambda>c s. (Inr (filter (\<lambda>x. deptCompany x = c) s), s)),
      dlUpdateDepartment = (\<lambda>dept s. (Inr dept, map (\<lambda>x. if deptId x = deptId dept then dept else x) s)),
      getEmployee = (\<lambda>i s. (Inr (if i = JNum 7 then Some ''Ada'' else None), s))\<rparr>"

definition faultyLayer :: "(department list, string) dataLayer" where
  "faultyLayer =
     \<lparr>getDepartment = (\<lambda>c i s. (Inl (Error ''connection lost''), s)),
      getAllDepartment = (\<lambda>c s. (Inl (Error ''connection lost''), s)),
      dlUpdateDepartment = (\<lambda>dept s. (Inl (Error ''connection lost''), s)),
      getEmployee = (\<lambda>i s. (Inl (Error ''connection lost''), s))\<rparr>"

definition flakyLayer :: "(department list, string) dataLayer" where
  "flakyLayer = memoryLayer\<lparr>getAllDepartment := (\<lambda>c s. (Inl (Error ''query timed out''), s))\<rparr>"


definition patch :: "jsval \<Rightarrow> jsval \<Rightarrow> deptData" where
  "patch c i = \<lparr>dept_id = i, company = c, dept_no = JUndefined, dept_name = JUndefined,
                location = JUndefined\<rparr>"

text \<open>
  A host at UTC whose clock reads Friday 2024-01-05, 12:00, and whose \<open>Date\<close> accepts
  only the form read above.
\<close>

definition friday :: env where
  "friday = \<lparr>now = 1704456000000, localTZA = 0, hostParse = (\<lambda>_. None)\<rparr>"

section \<open>Strict parsing, as the specification words it\<close>

text \<open>
  The specification's reading of \<open>moment(hireDate, "YYYY-MM-DD", true)\<close>, written without
  reference to the parser above: the string has the shape of the pattern, four digits, a
  hyphen, two digits, a hyphen and two digits and nothing else, and the numbers its
  fields denote name a day of the Gregorian calendar. The parsed date is then local
  midnight of that day.
\<close>

definition isDigit :: "char \<Rightarrow> bool" where
  "isDigit c = (c \<in> set ''0123456789'')"

definition shape :: "char \<Rightarrow> char" where
  "shape c = (if isDigit c then CHR ''9'' else if c = CHR ''-'' then CHR ''-'' else CHR ''?'')"

definition matchesYMD :: "string \<Rightarrow> bool" where
  "matchesYMD str = (map shape str = ''9999-99-99'')"

definition digitValue :: "char \<Rightarrow> int" where
  "digitValue c = int (of_char c) - 48"

definition fieldValue :: "string \<Rightarrow> int" where
  "fieldValue cs = foldl (\<lambda>a c. 10 * a + digitValue c) 0 cs"

definition yearOf :: "string \<Rightarrow> int" where
  "yearOf str = fieldValue (take 4 str)"

definition monthOf :: "string \<Rightarrow> int" where
  "monthOf str = fieldValue (take 2 (drop 5 str))"

definition dayOf :: "string \<Rightarrow> int" where
  "dayOf str = fieldValue (drop 8 str)"

definition isLeapYear :: "int \<Rightarrow> bool" where
  "isLeapYear y = (y mod 4 = 0 \<and> y mod 100 \<noteq> 0 \<or> y mod 400 = 0)"

definition lastDayOfMonth :: "int \<Rightarrow> int \<Rightarrow> int" where
  "lastDayOfMonth y m =
     (if m = 2 then (if isLeapYear y then 29 else 28)
      else if m \<in> {4, 6, 9, 11} then 30 else 31)"

definition calendarDate :: "int \<Rightarrow> int \<Rightarrow> int \<Rightarrow> bool" where
  "calendarDate y m d = (1 \<le> m \<and> m \<le> 12 \<and> 1 \<le> d \<and> d \<le> lastDayOfMonth y m)"

definition parsedDate :: "env \<Rightarrow> string \<Rightarrow> int" where
  "parsedDate env str = localDateTime env (yearOf str, monthOf str, dayOf str) (0, 0, 0)"

section \<open>The date arithmetic is sound\<close>

text \<open>Stepping a floor quotient by one.\<close>

lemma div_step:
  fixes x k :: int
  assumes "1 < k"
  shows "(x + 1) div k = x div k + (if (x + 1) mod k = 0 then 1 else 0)"
proof -
  have e: "(x + 1) div k = x div k + 1 div k + (x mod k + 1 mod k) div k"
    by (rule div_add1_eq)
  have m: "(x + 1) mod k = (x mod k + 1 mod k) mod k"
    by (rule mod_add_eq [symmetric])
  have o: "1 div k = 0" "1 mod k = 1" using assms by simp_all
  have r: "0 \<le> x mod k" "x mod k < k" using assms by simp_all
  show ?thesis
  proof (cases "x mod k + 1 = k")
    case True
    then show ?thesis using e m o assms by simp
  next
    case False
    with r have "x mod k + 1 < k" by simp
    with r have "(x mod k + 1) div k = 0" "(x mod k + 1) mod k = x mod k + 1"
      by simp_all
    then show ?thesis using e m o r by simp
  qed
qed


lemma mod_shift:
  "((y::int) - 1968) mod 4 = y mod 4" "(y - 1900) mod 100 = y mod 100"
  "(y - 1600) mod 400 = y mod 400"
  using mod_mult_self2 [of y 4 "- 492"] mod_mult_self2 [of y 100 "- 19"]
    mod_mult_self2 [of y 400 "- 4"]
  by simp_all

lemma mod_chain:
  "(y::int) mod 100 = 0 \<Longrightarrow> y mod 4 = 0" "y mod 400 = 0 \<Longrightarrow> y mod 100 = 0"
  using mod_mod_cancel [of 4 100 y] mod_mod_cancel [of 100 400 y] by simp_all

text \<open>The day number of 1 January moves on by the length of the year.\<close>

lemma DayFromYear_step: "DayFromYear (y + 1) = DayFromYear y + DaysInYear y"
proof -
  have a: "(y + 1 - 1969) div 4 = (y - 1969) div 4 + (if y mod 4 = 0 then 1 else 0)"
    using div_step [of 4 "y - 1969"] mod_shift(1) [of y] by (simp add: algebra_simps)
  have b: "(y + 1 - 1901) div 100 = (y - 1901) div 100 + (if y mod 100 = 0 then 1 else 0)"
    using div_step [of 100 "y - 1901"] mod_shift(2) [of y] by (simp add: algebra_simps)
  have c: "(y + 1 - 1601) div 400 = (y - 1601) div 400 + (if y mod 400 = 0 then 1 else 0)"
    using div_step [of 400 "y - 1601"] mod_shift(3) [of y] by (simp add: algebra_simps)
  show ?thesis
    unfolding DayFromYear_def DaysInYear_def a b c
    using mod_chain [of y] by auto
qed

text \<open>
  \<open>DayFromYear\<close> stays within two days of the mean year length, which bounds the error
  of the estimate in \<open>YearFromDay\<close>.
\<close>

lemma DayFromYear_estimate:
  "146097 * y - 287811596 \<le> 400 * DayFromYear y"
  "400 * DayFromYear y \<le> 146097 * y - 287810501"
proof -
  define a where "a = (y - 1969) div 4"
  define b where "b = (y - 1901) div 100"
  define c where "c = (y - 1601) div 400"
  have a: "4 * a \<le> y - 1969" "y - 1969 < 4 * a + 4"
    using div_mult_mod_eq [of "y - 1969" 4] pos_mod_bound [of 4 "y - 1969"]
      pos_mod_sign [of 4 "y - 1969"]
    by (simp_all add: a_def)
  have b: "100 * b \<le> y - 1901" "y - 1901 < 100 * b + 100"
    using div_mult_mod_eq [of "y - 1901" 100] pos_mod_bound [of 100 "y - 1901"]
      pos_mod_sign [of 100 "y - 1901"]
    by (simp_all add: b_def)
  have c: "400 * c \<le> y - 1601" "y - 1601 < 400 * c + 400"
    using div_mult_mod_eq [of "y - 1601" 400] pos_mod_bound [of 400 "y - 1601"]
      pos_mod_sign [of 400 "y - 1601"]
    by (simp_all add: c_def)
  have d: "400 * DayFromYear y = 146000 * y - 287620000 + 400 * a - 400 * b + 400 * c"
    by (simp add: DayFromYear_def a_def b_def c_def)
  from a b c d show "146097 * y - 287811596 \<le> 400 * DayFromYear y" by linarith
  from a b c d show "400 * DayFromYear y \<le> 146097 * y - 287810501" by linarith
qed

text \<open>
  \<open>YearFromDay d\<close> is the year whose days include \<open>d\<close>: the largest year that starts
  on or before \<open>d\<close>, as the standard defines \<open>YearFromTime\<close>.
\<close>

lemma YearFromDay_bounds:
  "DayFromYear (YearFromDay d) \<le> d \<and> d < DayFromYear (YearFromDay d + 1)"
proof -
  define q where "q = (d * 400) div 146097"
  have q: "146097 * q \<le> 400 * d" "400 * d < 146097 * q + 146097"
    using div_mult_mod_eq [of "d * 400" 146097] pos_mod_bound [of 146097 "d * 400"]
      pos_mod_sign [of 146097 "d * 400"]
    by (simp_all add: q_def)
  have "400 * DayFromYear (1969 + q) \<le> 146097 * q - 145508"
    using DayFromYear_estimate(2) [of "1969 + q"] by (simp add: algebra_simps)
  with q have lo: "DayFromYear (1969 + q) \<le> d" by linarith
  have "146097 * q + 291688 \<le> 400 * DayFromYear (1972 + q)"
    using DayFromYear_estimate(1) [of "1972 + q"] by (simp add: algebra_simps)
  with q have hi: "d < DayFromYear (1972 + q)" by linarith
  have "YearFromDay d =
          (if d < DayFromYear (1970 + q) then 1969 + q
           else if DayFromYear (1971 + q) \<le> d then 1971 + q else 1970 + q)"
    by (simp add: YearFromDay_def q_def Let_def algebra_simps)
  with lo hi show ?thesis by (auto simp: algebra_simps)
qed

lemma DayWithinYear_range:
  "0 \<le> DayWithinYear t \<and> DayWithinYear t < DaysInYear (YearFromTime t)"
  using YearFromDay_bounds [of "Day t"] DayFromYear_step [of "YearFromTime t"]
  by (simp add: DayWithinYear_def YearFromTime_def)


lemma DaysInYear_pos: "0 < DaysInYear y"
  by (simp add: DaysInYear_def)

lemma DayFromYear_mono_aux: "0 \<le> k \<Longrightarrow> DayFromYear y \<le> DayFromYear (y + k)"
proof (induction k rule: int_ge_induct)
  case base
  then show ?case by simp
next
  case (step i)
  have "DayFromYear (y + (i + 1)) = DayFromYear (y + i) + DaysInYear (y + i)"
    using DayFromYear_step [of "y + i"] by (simp add: algebra_simps)
  with step DaysInYear_pos [of "y + i"] show ?case by linarith
qed

lemma DayFromYear_mono: "y \<le> z \<Longrightarrow> DayFromYear y \<le> DayFromYear z"
  using DayFromYear_mono_aux [of "z - y" y] by simp

lemma YearFromDay_unique:
  assumes "DayFromYear y \<le> D" and "D < DayFromYear (y + 1)"
  shows "YearFromDay D = y"
proof (rule ccontr)
  assume n: "YearFromDay D \<noteq> y"
  note b = YearFromDay_bounds [of D]
  show False
  proof (cases "YearFromDay D < y")
    case True
    then have "DayFromYear (YearFromDay D + 1) \<le> DayFromYear y"
      by (intro DayFromYear_mono) simp
    with b assms show False by linarith
  next
    case False
    with n have "DayFromYear (y + 1) \<le> DayFromYear (YearFromDay D)"
      by (intro DayFromYear_mono) simp
    with b assms show False by linarith
  qed
qed

lemma monthOfDay_monthStart:
  assumes "0 \<le> m" "m \<le> 11" "l = 0 \<or> l = 1" "1 \<le> d"
    and "d \<le> (if m = 11 then 365 + l else monthStart (m + 1) l) - monthStart m l"
  shows "monthOfDay (monthStart m l + (d - 1)) l = m"
proof -
  from assms(1,2) consider "m = 0" | "m = 1" | "m = 2" | "m = 3" | "m = 4" | "m = 5"
    | "m = 6" | "m = 7" | "m = 8" | "m = 9" | "m = 10" | "m = 11"
    by atomize_elim arith
  then show ?thesis
    using assms(3-5) by cases (auto simp: monthOfDay_def monthStart_def)
qed

lemma daysInMonth_monthStart:
  assumes "1 \<le> m" "m \<le> 12"
  shows "daysInMonth y m =
           (if m - 1 = 11 then 365 + leapDay y else monthStart (m - 1 + 1) (leapDay y))
             - monthStart (m - 1) (leapDay y)"
proof -
  from assms consider "m = 1" | "m = 2" | "m = 3" | "m = 4" | "m = 5" | "m = 6"
    | "m = 7" | "m = 8" | "m = 9" | "m = 10" | "m = 11" | "m = 12"
    by atomize_elim arith
  then show ?thesis
    by cases (simp_all add: daysInMonth_def monthStart_def)
qed

lemma monthStart_le:
  assumes "0 \<le> m" "m \<le> 11" "l = 0 \<or> l = 1"
  shows "0 \<le> monthStart m l \<and>
         (if m = 11 then 365 + l else monthStart (m + 1) l) \<le> 365 + l"
proof -
  from assms(1,2) consider "m = 0" | "m = 1" | "m = 2" | "m = 3" | "m = 4" | "m = 5"
    | "m = 6" | "m = 7" | "m = 8" | "m = 9" | "m = 10" | "m = 11"
    by atomize_elim arith
  then show ?thesis
    using assms(3) by cases (auto simp: monthStart_def)
qed

lemma leapDay_cases: "leapDay y = 0 \<or> leapDay y = 1"
  by (simp add: leapDay_def)

lemma DaysInYear_leapDay: "DaysInYear y = 365 + leapDay y"
  by (simp add: leapDay_def DaysInYear_def)

text \<open>A day made from a valid year, month and date has that year, month and date.\<close>

lemma MakeDay_fields:
  assumes "validYMD y m d"
  shows "YearFromDay (MakeDay y (m - 1) d) = y"
    and "monthOfDay (MakeDay y (m - 1) d - DayFromYear y) (leapDay y) = m - 1"
    and "MakeDay y (m - 1) d - DayFromYear y - monthStart (m - 1) (leapDay y) + 1 = d"
proof -
  from assms have m: "1 \<le> m" "m \<le> 12" and d: "1 \<le> d" "d \<le> daysInMonth y m"
    by (simp_all add: validYMD_def)
  from m have dm: "(m - 1) div 12 = 0" "(m - 1) mod 12 = m - 1" by simp_all
  have md: "MakeDay y (m - 1) d = DayFromYear y + monthStart (m - 1) (leapDay y) + d - 1"
    by (simp add: MakeDay_def dm)
  have dl: "d \<le> (if m - 1 = 11 then 365 + leapDay y else monthStart (m - 1 + 1) (leapDay y))
             - monthStart (m - 1) (leapDay y)"
    using d(2) daysInMonth_monthStart [OF m, of y] by simp
  have ms: "0 \<le> monthStart (m - 1) (leapDay y)"
    "(if m - 1 = 11 then 365 + leapDay y else monthStart (m - 1 + 1) (leapDay y))
       \<le> 365 + leapDay y"
    using monthStart_le [of "m - 1" "leapDay y"] m leapDay_cases [of y] by simp_all
  have lo: "DayFromYear y \<le> MakeDay y (m - 1) d"
    using md ms(1) d(1) by linarith
  have hi: "MakeDay y (m - 1) d < DayFromYear (y + 1)"
    using md dl ms(2) DayFromYear_step [of y] DaysInYear_leapDay [of y] by linarith
  show "YearFromDay (MakeDay y (m - 1) d) = y"
    by (rule YearFromDay_unique [OF lo hi])
  show "monthOfDay (MakeDay y (m - 1) d - DayFromYear y) (leapDay y) = m - 1"
    using monthOfDay_monthStart [of "m - 1" "leapDay y" d] m d(1) dl leapDay_cases [of y]
    by (simp add: md)
  show "MakeDay y (m - 1) d - DayFromYear y - monthStart (m - 1) (leapDay y) + 1 = d"
    by (simp add: md)
qed




lemma Day_MakeDate:
  assumes "0 \<le> time" "time < msPerDay"
  shows "Day (MakeDate D time) = D"
proof -
  have p: "msPerDay \<noteq> 0" by (simp add: msPerDay_def)
  have "(time + D * msPerDay) div msPerDay = D + time div msPerDay"
    by (rule div_mult_self1 [OF p])
  moreover have "time div msPerDay = 0"
    using assms by (rule div_pos_pos_trivial)
  ultimately show ?thesis
    by (simp add: Day_def MakeDate_def add.commute)
qed

lemma MakeTime_range:
  assumes "0 \<le> h" "h \<le> 23" "0 \<le> mi" "mi \<le> 59" "0 \<le> s" "s \<le> 59"
  shows "0 \<le> MakeTime h mi s 0" and "MakeTime h mi s 0 < msPerDay"
  using assms
  unfolding MakeTime_def msPerDay_def msPerHour_def msPerMinute_def msPerSecond_def
  by linarith+


lemma HourFromTime_MakeDate:
  assumes "0 \<le> h" "h \<le> 23" "0 \<le> mi" "mi \<le> 59" "0 \<le> s" "s \<le> 59"
  shows "HourFromTime (MakeDate D (MakeTime h mi s 0)) = h"
proof -
  define r where "r = mi * msPerMinute + s * msPerSecond"
  have r: "0 \<le> r" "r < msPerHour"
    using assms(3-6) unfolding r_def msPerMinute_def msPerSecond_def msPerHour_def
    by linarith+
  have p: "msPerHour \<noteq> 0" by (simp add: msPerHour_def)
  have "MakeDate D (MakeTime h mi s 0) = r + (D * 24 + h) * msPerHour"
    by (simp add: MakeDate_def MakeTime_def r_def msPerDay_def msPerHour_def algebra_simps)
  moreover have "(r + (D * 24 + h) * msPerHour) div msPerHour = (D * 24 + h) + r div msPerHour"
    by (rule div_mult_self1 [OF p])
  moreover have "r div msPerHour = 0"
    using r by (rule div_pos_pos_trivial)
  ultimately have "MakeDate D (MakeTime h mi s 0) div msPerHour = D * 24 + h"
    by simp
  moreover have "(D * 24 + h) mod 24 = h"
    using assms(1,2) by simp
  ultimately show ?thesis
    by (simp add: HourFromTime_def)
qed

text \<open>
  The local date-time made from valid fields reads back as those fields: what \<open>new Date\<close>
  parses and what \<open>moment\<close> builds have the year, month, date and hour of the string.
\<close>

lemma localDateTime_fields:
  assumes "validYMD y m d" "0 \<le> h" "h \<le> 23" "0 \<le> mi" "mi \<le> 59" "0 \<le> s" "s \<le> 59"
  shows "getFullYear env (localDateTime env (y, m, d) (h, mi, s)) = y"
    and "getMonth env (localDateTime env (y, m, d) (h, mi, s)) = m - 1"
    and "getDate env (localDateTime env (y, m, d) (h, mi, s)) = d"
    and "getHours env (localDateTime env (y, m, d) (h, mi, s)) = h"
proof -
  define t where "t = MakeDate (MakeDay y (m - 1) d) (MakeTime h mi s 0)"
  have l: "LocalTime env (localDateTime env (y, m, d) (h, mi, s)) = t"
    by (simp add: localDateTime_def LocalTime_def UTC_def t_def)
  have dy: "Day t = MakeDay y (m - 1) d"
    unfolding t_def by (rule Day_MakeDate [OF MakeTime_range [OF assms(2-7)]])
  have yr: "YearFromTime t = y"
    unfolding YearFromTime_def dy by (rule MakeDay_fields(1) [OF assms(1)])
  have dwy: "DayWithinYear t = MakeDay y (m - 1) d - DayFromYear y"
    unfolding DayWithinYear_def dy yr ..
  have lp: "InLeapYear t = leapDay y"
    unfolding InLeapYear_def yr ..
  have mo: "MonthFromTime t = m - 1"
    unfolding MonthFromTime_def dwy lp by (rule MakeDay_fields(2) [OF assms(1)])
  have da: "DateFromTime t = d"
    unfolding DateFromTime_def dwy lp mo by (rule MakeDay_fields(3) [OF assms(1)])
  show "getFullYear env (localDateTime env (y, m, d) (h, mi, s)) = y"
    unfolding getFullYear_def l by (rule yr)
  show "getMonth env (localDateTime env (y, m, d) (h, mi, s)) = m - 1"
    unfolding getMonth_def l by (rule mo)
  show "getDate env (localDateTime env (y, m, d) (h, mi, s)) = d"
    unfolding getDate_def l by (rule da)
  show "getHours env (localDateTime env (y, m, d) (h, mi, s)) = h"
    unfolding getHours_def l t_def by (rule HourFromTime_MakeDate [OF assms(2-7)])
qed

section \<open>Numbers print as the engine prints them\<close>

text \<open>
  Small integers in full; \<open>10^21\<close> and above in exponent form; an integer that is no
  double as the double nearest to it; and 21 digits or fewer in full, with zeros after
  the digits that matter.
\<close>

lemma numberToString_samples:
  "numberToString 8 = ''8''"
  "numberToString (- 5) = ''-5''"
  "numberToString (10 ^ 21) = ''1e+21''"
  "numberToString (2 ^ 70) = ''1.1805916207174113e+21''"
  "numberToString (2 ^ 60) = ''1152921504606847000''"
  "numberToString 9007199254740993 = ''9007199254740992''"
  by code_simp+

section \<open>The ways through validateDepartmentUpdate\<close>


lemma vdu_null:
  "validateDepartmentUpdate dl ArgNull w =
     (Inl (TypeError ''Cannot read properties of null (reading 'dept_id')''), w)"
  by (simp add: validateDepartmentUpdate_def requiredFields_def bind_def asObject_def throw_def)


lemma vdu_lookup_throws:
  assumes "getDepartment dl (company d) (dept_id d) s = (Inl e, s1)"
    and "readMessage e = Inr m"
  shows "validateDepartmentUpdate dl (ArgObject d) (tr, s) =
           (Inr \<lparr>valid = False, errors = requiredErrors d @ [''Validation error: '' @ toStringJS m],
                 existingDept = None\<rparr>,
            (tr @ [GetDepartment (company d) (dept_id d)], s1))"
  using assms
  by (simp add: validateDepartmentUpdate_def requiredFields_def requiredErrors_def bind_def
      asObject_def outcome_def tryCatch_def tryBody_def catchBlock_def inWorld_def
      callGetDepartment_def invoke_def push_def getErrors_def ret_def throw_def)

lemma vdu_lookup_rethrows:
  assumes "getDepartment dl (company d) (dept_id d) s = (Inl e, s1)"
    and "readMessage e = Inl t"
  shows "validateDepartmentUpdate dl (ArgObject d) (tr, s) =
           (Inl t, (tr @ [GetDepartment (company d) (dept_id d)], s1))"
  using assms
  by (simp add: validateDepartmentUpdate_def requiredFields_def requiredErrors_def bind_def
      asObject_def outcome_def tryCatch_def tryBody_def catchBlock_def inWorld_def
      callGetDepartment_def invoke_def push_def getErrors_def ret_def throw_def)

lemma vdu_not_found:
  assumes "getDepartment dl (company d) (dept_id d) s = (Inr None, s1)"
  shows "validateDepartmentUpdate dl (ArgObject d) (tr, s) =
           (Inr \<lparr>valid = False, errors = requiredErrors d @ [''Department not found''],
                 existingDept = None\<rparr>,
            (tr @ [GetDepartment (company d) (dept_id d)], s1))"
  using assms
  by (simp add: validateDepartmentUpdate_def requiredFields_def requiredErrors_def bind_def
      asObject_def outcome_def tryCatch_def tryBody_def catchBlock_def inWorld_def
      callGetDepartment_def invoke_def push_def getErrors_def ret_def throw_def)

lemma vdu_found_no_check:
  assumes "getDepartment dl (company d) (dept_id d) s = (Inr (Some ex), s1)"
    and "\<not> (truthy (dept_no d) \<and> strictNeq (dept_no d) (getDeptNo ex))"
  shows "validateDepartmentUpdate dl (ArgObject d) (tr, s) =
           (Inr \<lparr>valid = (requiredErrors d = []), errors = requiredErrors d,
                 existingDept = Some ex\<rparr>,
            (tr @ [GetDepartment (company d) (dept_id d)], s1))"
proof -
  have "checkDeptNo dl d ex = ret ()"
    using assms(2) by (auto simp: checkDeptNo_def)
  then show ?thesis
    using assms(1)
    by (simp add: validateDepartmentUpdate_def requiredFields_def requiredErrors_def bind_def
      asObject_def outcome_def tryCatch_def tryBody_def catchBlock_def inWorld_def
      callGetDepartment_def invoke_def push_def getErrors_def ret_def throw_def)
qed

lemma vdu_check_throws:
  assumes "getDepartment dl (company d) (dept_id d) s = (Inr (Some ex), s1)"
    and "truthy (dept_no d)" "strictNeq (dept_no d) (getDeptNo ex)"
    and "getAllDepartment dl (company d) s1 = (Inl e, s2)"
    and "readMessage e = Inr m"
  shows "validateDepartmentUpdate dl (ArgObject d) (tr, s) =
           (Inr \<lparr>valid = False, errors = requiredErrors d @ [''Validation error: '' @ toStringJS m],
                 existingDept = None\<rparr>,
            (tr @ [GetDepartment (company d) (dept_id d), GetAllDepartment (company d)], s2))"
  using assms
  by (simp add: validateDepartmentUpdate_def requiredFields_def requiredErrors_def bind_def
      asObject_def outcome_def tryCatch_def tryBody_def catchBlock_def inWorld_def
      callGetDepartment_def invoke_def push_def getErrors_def ret_def throw_def checkDeptNo_def callGetAllDepartment_def)

lemma vdu_check_rethrows:
  assumes "getDepartment dl (company d) (dept_id d) s = (Inr (Some ex), s1)"
    and "truthy (dept_no d)" "strictNeq (dept_no d) (getDeptNo ex)"
    and "getAllDepartment dl (company d) s1 = (Inl e, s2)"
    and "readMessage e = Inl t"
  shows "validateDepartmentUpdate dl (ArgObject d) (tr, s) =
           (Inl t,
            (tr @ [GetDepartment (company d) (dept_id d), GetAllDepartment (company d)], s2))"
  using assms
  by (simp add: validateDepartmentUpdate_def requiredFields_def requiredErrors_def bind_def
      asObject_def outcome_def tryCatch_def tryBody_def catchBlock_def inWorld_def
      callGetDepartment_def invoke_def push_def getErrors_def ret_def throw_def checkDeptNo_def callGetAllDepartment_def)

lemma vdu_check_returns:
  assumes "getDepartment dl (company d) (dept_id d) s = (Inr (Some ex), s1)"
    and "truthy (dept_no d)" "strictNeq (dept_no d) (getDeptNo ex)"
    and "getAllDepartment dl (company d) s1 = (Inr allDepartments, s2)"
  shows "validateDepartmentUpdate dl (ArgObject d) (tr, s) =
           (Inr \<lparr>valid = (requiredErrors d @ uniqueErrors d allDepartments = []),
                 errors = requiredErrors d @ uniqueErrors d allDepartments,
                 existingDept = Some ex\<rparr>,
            (tr @ [GetDepartment (company d) (dept_id d), GetAllDepartment (company d)], s2))"
  using assms
  by (simp add: validateDepartmentUpdate_def requiredFields_def requiredErrors_def bind_def
      asObject_def outcome_def tryCatch_def tryBody_def catchBlock_def inWorld_def
      callGetDepartment_def invoke_def push_def getErrors_def ret_def throw_def checkDeptNo_def callGetAllDepartment_def uniqueErrors_def)

lemma truthy_strictEq_refl: "truthy v \<Longrightarrow> strictEq v v"
  by (cases v) simp_all

text \<open>Every result the method resolves to comes from one of five of them.\<close>

lemma vdu_cases:
  assumes "validateDepartmentUpdate dl (ArgObject d) (tr, s) = (Inr r, w')"
  obtains
    (lookup_throws) e s1 m where "getDepartment dl (company d) (dept_id d) s = (Inl e, s1)"
      "readMessage e = Inr m"
      "r = \<lparr>valid = False, errors = requiredErrors d @ [''Validation error: '' @ toStringJS m],
            existingDept = None\<rparr>"
      "w' = (tr @ [GetDepartment (company d) (dept_id d)], s1)"
  | (not_found) s1 where "getDepartment dl (company d) (dept_id d) s = (Inr None, s1)"
      "r = \<lparr>valid = False, errors = requiredErrors d @ [''Department not found''],
            existingDept = None\<rparr>"
      "w' = (tr @ [GetDepartment (company d) (dept_id d)], s1)"
  | (no_check) ex s1 where "getDepartment dl (company d) (dept_id d) s = (Inr (Some ex), s1)"
      "\<not> (truthy (dept_no d) \<and> strictNeq (dept_no d) (getDeptNo ex))"
      "r = \<lparr>valid = (requiredErrors d = []), errors = requiredErrors d, existingDept = Some ex\<rparr>"
      "w' = (tr @ [GetDepartment (company d) (dept_id d)], s1)"
  | (check_throws) ex s1 e s2 m where "getDepartment dl (company d) (dept_id d) s = (Inr (Some ex), s1)"
      "truthy (dept_no d)" "strictNeq (dept_no d) (getDeptNo ex)"
      "getAllDepartment dl (company d) s1 = (Inl e, s2)"
      "readMessage e = Inr m"
      "r = \<lparr>valid = False, errors = requiredErrors d @ [''Validation error: '' @ toStringJS m],
            existingDept = None\<rparr>"
      "w' = (tr @ [GetDepartment (company d) (dept_id d), GetAllDepartment (company d)], s2)"
  | (check_returns) ex s1 allDepartments s2 where
      "getDepartment dl (company d) (dept_id d) s = (Inr (Some ex), s1)"
      "truthy (dept_no d)" "strictNeq (dept_no d) (getDeptNo ex)"
      "getAllDepartment dl (company d) s1 = (Inr allDepartments, s2)"
      "r = \<lparr>valid = (requiredErrors d @ uniqueErrors d allDepartments = []),
            errors = requiredErrors d @ uniqueErrors d allDepartments, existingDept = Some ex\<rparr>"
      "w' = (tr @ [GetDepartment (company d) (dept_id d), GetAllDepartment (company d)], s2)"
proof -
  obtain g s1 where g: "getDepartment dl (company d) (dept_id d) s = (g, s1)"
    by (cases "getDepartment dl (company d) (dept_id d) s")
  show ?thesis
  proof (cases g)
    case (Inl e)
    with g have g': "getDepartment dl (company d) (dept_id d) s = (Inl e, s1)" by simp
    show ?thesis
    proof (cases "readMessage e")
      case (Inl t)
      from vdu_lookup_rethrows [OF g' Inl, of tr] assms show ?thesis by simp
    next
      case (Inr m)
      from vdu_lookup_throws [OF g' Inr, of tr] assms
      have "r = \<lparr>valid = False,
              errors = requiredErrors d @ [''Validation error: '' @ toStringJS m],
              existingDept = None\<rparr>"
        and "w' = (tr @ [GetDepartment (company d) (dept_id d)], s1)"
        by simp_all
      then show ?thesis by (rule lookup_throws [OF g' Inr])
    qed
  next
    case (Inr found)
    show ?thesis
    proof (cases found)
      case None
      with g Inr have g': "getDepartment dl (company d) (dept_id d) s = (Inr None, s1)" by simp
      from vdu_not_found [OF g', of tr] assms
      have "r = \<lparr>valid = False, errors = requiredErrors d @ [''Department not found''],
            existingDept = None\<rparr>"
        and "w' = (tr @ [GetDepartment (company d) (dept_id d)], s1)"
        by simp_all
      then show ?thesis by (rule not_found [OF g'])
    next
      case (Some ex)
      with g Inr have g': "getDepartment dl (company d) (dept_id d) s = (Inr (Some ex), s1)"
        by simp
      show ?thesis
      proof (cases "truthy (dept_no d) \<and> strictNeq (dept_no d) (getDeptNo ex)")
        case False
        from vdu_found_no_check [OF g' False, of tr] assms
        have "r = \<lparr>valid = (requiredErrors d = []), errors = requiredErrors d,
                existingDept = Some ex\<rparr>"
          and "w' = (tr @ [GetDepartment (company d) (dept_id d)], s1)"
          by simp_all
        then show ?thesis by (rule no_check [OF g' False])
      next
        case True
        then have t: "truthy (dept_no d)" and n: "strictNeq (dept_no d) (getDeptNo ex)"
          by simp_all
        obtain a s2 where a: "getAllDepartment dl (company d) s1 = (a, s2)"
          by (cases "getAllDepartment dl (company d) s1")
        show ?thesis
        proof (cases a)
          case (Inl e)
          with a have a': "getAllDepartment dl (company d) s1 = (Inl e, s2)" by simp
          show ?thesis
          proof (cases "readMessage e")
            case rethrown: (Inl t')
            from vdu_check_rethrows [OF g' t n a' rethrown, of tr] assms show ?thesis by simp
          next
            case (Inr m)
            from vdu_check_throws [OF g' t n a' Inr, of tr] assms
            have "r = \<lparr>valid = False,
                    errors = requiredErrors d @ [''Validation error: '' @ toStringJS m],
                    existingDept = None\<rparr>"
              and "w' = (tr @ [GetDepartment (company d) (dept_id d),
                     GetAllDepartment (company d)], s2)"
              by simp_all
            then show ?thesis by (rule check_throws [OF g' t n a' Inr])
          qed
        next
          case (Inr allDepartments)
          with a have a': "getAllDepartment dl (company d) s1 = (Inr allDepartments, s2)"
            by simp
          from vdu_check_returns [OF g' t n a', of tr] assms
          have "r = \<lparr>valid = (requiredErrors d @ uniqueErrors d allDepartments = []),
                  errors = requiredErrors d @ uniqueErrors d allDepartments,
                  existingDept = Some ex\<rparr>"
            and "w' = (tr @ [GetDepartment (company d) (dept_id d),
                   GetAllDepartment (company d)], s2)"
            by simp_all
          then show ?thesis by (rule check_returns [OF g' t n a'])
        qed
      qed
    qed
  qed
qed

text \<open>A result with \<open>valid\<close> set carries the department the lookup returned.\<close>

lemma valid_has_existingDept:
  assumes "validateDepartmentUpdate dl (ArgObject d) (tr, s) = (Inr r, w')" and "valid r"
  shows "\<exists>ex s1. existingDept r = Some ex \<and>
           getDepartment dl (company d) (dept_id d) s = (Inr (Some ex), s1)"
  using assms(1)
proof (cases rule: vdu_cases)
  case lookup_throws with assms(2) show ?thesis by simp
next
  case not_found with assms(2) show ?thesis by simp
next
  case no_check then show ?thesis by simp
next
  case check_throws with assms(2) show ?thesis by simp
next
  case check_returns then show ?thesis by simp
qed



lemma validateManager_zero: "validateManager dl (JNum 0) w = (Inr (), w)"
  by (simp add: validateManager_def ret_def)

lemma validateManager_lookup:
  assumes "\<not> strictEq mngId (JNum 0)" and "getEmployee dl mngId s = (found, s1)"
  shows "validateManager dl mngId (tr, s) =
           ((case found of
               Inl e \<Rightarrow> Inl e
             | Inr None \<Rightarrow> Inl (Error (''Invalid manager ID: '' @ toStringJS mngId @ ''.''))
             | Inr (Some manager) \<Rightarrow> Inr ()),
            (tr @ [GetEmployee mngId], s1))"
  using assms
  by (simp add: validateManager_def bind_def callGetEmployee_def invoke_def throw_def ret_def
      split: sum.split option.split)

section \<open>Claims about validateDepartmentUpdate\<close>




text \<open>
  C3, as stated: whenever the lookup finds no stored department, the errors are the
  one-element list \<open>["Department not found"]\<close>. That fails for a patch without
  \<open>dept_id\<close>: the required-fields entry of line 13 was pushed before the lookup, so the
  list has two entries.
\<close>

theorem validateDepartmentUpdate_not_found_counterexample:
  "getDepartment memoryLayer (company (patch (JStr ''acme'') JUndefined))
      (dept_id (patch (JStr ''acme'') JUndefined)) [acmeSales] = (Inr None, [acmeSales]) \<and>
   validateDepartmentUpdate memoryLayer (ArgObject (patch (JStr ''acme'') JUndefined)) ([], [acmeSales]) =
     (Inr \<lparr>valid = False,
           errors = [''Department ID and company name are required'', ''Department not found''],
           existingDept = None\<rparr>,
      ([GetDepartment (JStr ''acme'') JUndefined], [acmeSales])) \<and>
   [''Department ID and company name are required'', ''Department not found'']
     \<noteq> [''Department not found'']"
proof -
  have h: "getDepartment memoryLayer (company (patch (JStr ''acme'') JUndefined))
      (dept_id (patch (JStr ''acme'') JUndefined)) [acmeSales] = (Inr None, [acmeSales])"
    by (simp add: memoryLayer_def patch_def acmeSales_def)
  show ?thesis
    using h vdu_not_found [OF h, of "[]"]
    by (simp add: requiredErrors_def patch_def)
qed

text \<open>
  C3, amended. For every patch whose lookup finds no stored department, the result has
  \<open>valid = false\<close>; its errors are \<open>["Department not found"]\<close> when \<open>dept_id\<close> and
  \<open>company\<close> are both truthy, and \<open>["Department ID and company name are required",
  "Department not found"]\<close> when either is falsy, that is absent or supplied as \<open>0\<close>,
  the empty string, \<open>null\<close>, \<open>false\<close> or \<open>NaN\<close>; and the lookup is the only call issued
  to the data layer: no query for all departments.
\<close>

theorem validateDepartmentUpdate_not_found:
  assumes "getDepartment dl (company d) (dept_id d) s = (Inr None, s1)"
  shows "validateDepartmentUpdate dl (ArgObject d) (tr, s) =
           (Inr \<lparr>valid = False,
                 errors = (if truthy (dept_id d) \<and> truthy (company d)
                           then [''Department not found'']
                           else [''Department ID and company name are required'',
                                 ''Department not found'']),
                 existingDept = None\<rparr>,
            (tr @ [GetDepartment (company d) (dept_id d)], s1))"
  using vdu_not_found [OF assms, of tr] by (simp add: requiredErrors_def)

theorem validateDepartmentUpdate_not_found_witness:
  "getDepartment memoryLayer (JStr ''acme'') (JNum 9) [acmeSales, acmeOps]
     = (Inr None, [acmeSales, acmeOps]) \<and>
   validateDepartmentUpdate memoryLayer (ArgObject (patch (JStr ''acme'') (JNum 9)))
       ([], [acmeSales, acmeOps]) =
     (Inr \<lparr>valid = False, errors = [''Department not found''], existingDept = None\<rparr>,
      ([GetDepartment (JStr ''acme'') (JNum 9)], [acmeSales, acmeOps])) \<and>
   getDepartment memoryLayer (JStr ''acme'') (JNum 0) [acmeSales, acmeOps]
     = (Inr None, [acmeSales, acmeOps]) \<and>
   validateDepartmentUpdate memoryLayer (ArgObject (patch (JStr ''acme'') (JNum 0)))
       ([], [acmeSales, acmeOps]) =
     (Inr \<lparr>valid = False,
           errors = [''Department ID and company name are required'', ''Department not found''],
           existingDept = None\<rparr>,
      ([GetDepartment (JStr ''acme'') (JNum 0)], [acmeSales, acmeOps]))"
proof -
  let ?d = "patch (JStr ''acme'') (JNum 9)"
  let ?z = "patch (JStr ''acme'') (JNum 0)"
  have cd: "company ?d = JStr ''acme''" "dept_id ?d = JNum 9"
    "company ?z = JStr ''acme''" "dept_id ?z = JNum 0"
    by (simp_all add: patch_def)
  have h: "getDepartment memoryLayer (company ?d) (dept_id ?d) [acmeSales, acmeOps]
             = (Inr None, [acmeSales, acmeOps])"
    by (simp add: memoryLayer_def patch_def acmeSales_def acmeOps_def)
  have z: "getDepartment memoryLayer (company ?z) (dept_id ?z) [acmeSales, acmeOps]
             = (Inr None, [acmeSales, acmeOps])"
    by (simp add: memoryLayer_def patch_def acmeSales_def acmeOps_def)
  from h z validateDepartmentUpdate_not_found [OF h, of "[]"]
    validateDepartmentUpdate_not_found [OF z, of "[]"]
  show ?thesis unfolding cd by simp
qed

text \<open>
  C6. For every patch whose \<open>dept_no\<close> equals the stored department's, the uniqueness
  check is skipped: the lookup is the only call issued (no query for all departments),
  and the errors hold at most the required-fields entry, never the uniqueness entry,
  whatever numbers the other departments have.
\<close>

theorem validateDepartmentUpdate_same_dept_no:
  assumes "getDepartment dl (company d) (dept_id d) s = (Inr (Some ex), s1)"
    and "dept_no d = getDeptNo ex"
  shows "validateDepartmentUpdate dl (ArgObject d) (tr, s) =
           (Inr \<lparr>valid = (requiredErrors d = []), errors = requiredErrors d,
                 existingDept = Some ex\<rparr>,
            (tr @ [GetDepartment (company d) (dept_id d)], s1)) \<and>
         ''Department number must be unique across all companies'' \<notin> set (requiredErrors d)"
proof -
  have "\<not> (truthy (dept_no d) \<and> strictNeq (dept_no d) (getDeptNo ex))"
    using assms(2) truthy_strictEq_refl [of "dept_no d"] by (auto simp: strictNeq_def)
  from vdu_found_no_check [OF assms(1) this, of tr] show ?thesis
    by (simp add: requiredErrors_def)
qed

theorem validateDepartmentUpdate_same_dept_no_witness:
  "getDepartment memoryLayer (JStr ''acme'') (JNum 1) [acmeSales, acmeOps, acmeLab]
     = (Inr (Some acmeSales), [acmeSales, acmeOps, acmeLab]) \<and>
   getDeptNo acmeLab = getDeptNo acmeSales \<and>
   validateDepartmentUpdate memoryLayer
       (ArgObject ((patch (JStr ''acme'') (JNum 1))\<lparr>dept_no := JStr ''D10''\<rparr>))
       ([], [acmeSales, acmeOps, acmeLab]) =
     (Inr \<lparr>valid = True, errors = [], existingDept = Some acmeSales\<rparr>,
      ([GetDepartment (JStr ''acme'') (JNum 1)], [acmeSales, acmeOps, acmeLab]))"
proof -
  let ?d = "(patch (JStr ''acme'') (JNum 1))\<lparr>dept_no := JStr ''D10''\<rparr>"
  have h: "getDepartment memoryLayer (company ?d) (dept_id ?d) [acmeSales, acmeOps, acmeLab]
     = (Inr (Some acmeSales), [acmeSales, acmeOps, acmeLab])"
    by (simp add: memoryLayer_def patch_def acmeSales_def)
  have e: "dept_no ?d = getDeptNo acmeSales"
    by (simp add: patch_def getDeptNo_def acmeSales_def)
  show ?thesis
    using h validateDepartmentUpdate_same_dept_no [OF h e, of "[]"]
    by (simp add: requiredErrors_def patch_def getDeptNo_def acmeSales_def acmeLab_def)
qed

text \<open>
  C10, as stated: \<open>existingDept\<close> is in the result whenever the department lookup
  succeeded. That fails when the query for all departments throws after the lookup has
  found the department: the catch block returns a result without \<open>existingDept\<close>.
\<close>

theorem validateDepartmentUpdate_result_counterexample:
  "getDepartment flakyLayer (JStr ''acme'') (JNum 1) [acmeSales, acmeOps]
     = (Inr (Some acmeSales), [acmeSales, acmeOps]) \<and>
   validateDepartmentUpdate flakyLayer
       (ArgObject ((patch (JStr ''acme'') (JNum 1))\<lparr>dept_no := JStr ''D20''\<rparr>))
       ([], [acmeSales, acmeOps]) =
     (Inr \<lparr>valid = False, errors = [''Validation error: query timed out''], existingDept = None\<rparr>,
      ([GetDepartment (JStr ''acme'') (JNum 1), GetAllDepartment (JStr ''acme'')],
       [acmeSales, acmeOps]))"
proof -
  let ?d = "(patch (JStr ''acme'') (JNum 1))\<lparr>dept_no := JStr ''D20''\<rparr>"
  have h: "getDepartment flakyLayer (company ?d) (dept_id ?d) [acmeSales, acmeOps]
     = (Inr (Some acmeSales), [acmeSales, acmeOps])"
    by (simp add: flakyLayer_def memoryLayer_def patch_def acmeSales_def)
  have t: "truthy (dept_no ?d)" by (simp add: patch_def)
  have n: "strictNeq (dept_no ?d) (getDeptNo acmeSales)"
    by (simp add: patch_def strictNeq_def getDeptNo_def acmeSales_def)
  have q: "getAllDepartment flakyLayer (company ?d) [acmeSales, acmeOps]
     = (Inl (Error ''query timed out''), [acmeSales, acmeOps])"
    by (simp add: flakyLayer_def)
  have m: "readMessage (Error ''query timed out'') = Inr (JStr ''query timed out'')"
    by (simp add: readMessage_def)
  show ?thesis
    using h vdu_check_throws [OF h t n q m, of "[]"]
    by (simp add: requiredErrors_def patch_def)
qed

text \<open>
  C10, amended. In every result, \<open>valid\<close> is true exactly when \<open>errors\<close> is empty;
  and when the lookup found a department, the result carries it as \<open>existingDept\<close>, also
  with \<open>valid = false\<close>, unless the uniqueness query was issued and threw, in which case
  the result has no \<open>existingDept\<close>.
\<close>

theorem validateDepartmentUpdate_result_invariant:
  assumes "validateDepartmentUpdate dl (ArgObject d) (tr, s) = (Inr r, w')"
  shows "(valid r \<longleftrightarrow> errors r = []) \<and>
         (\<forall>ex s1. getDepartment dl (company d) (dept_id d) s = (Inr (Some ex), s1) \<longrightarrow>
            existingDept r = (if queryThrows dl d ex s1 then None else Some ex))"
  using assms
proof (cases rule: vdu_cases)
  case lookup_throws then show ?thesis by simp
next
  case not_found then show ?thesis by simp
next
  case no_check then show ?thesis by (auto simp: queryThrows_def)
next
  case check_throws then show ?thesis by (simp add: queryThrows_def)
next
  case check_returns then show ?thesis by (simp add: queryThrows_def)
qed

theorem validateDepartmentUpdate_result_invariant_witness:
  "validateDepartmentUpdate memoryLayer
       (ArgObject ((patch (JStr ''acme'') (JNum 1))\<lparr>dept_no := JStr ''D20''\<rparr>))
       ([], [acmeSales, acmeOps]) =
     (Inr \<lparr>valid = False, errors = [''Department number must be unique across all companies''],
           existingDept = Some acmeSales\<rparr>,
      ([GetDepartment (JStr ''acme'') (JNum 1), GetAllDepartment (JStr ''acme'')],
       [acmeSales, acmeOps])) \<and>
   getDepartment memoryLayer (JStr ''acme'') (JNum 1) [acmeSales, acmeOps]
     = (Inr (Some acmeSales), [acmeSales, acmeOps]) \<and>
   \<not> queryThrows memoryLayer ((patch (JStr ''acme'') (JNum 1))\<lparr>dept_no := JStr ''D20''\<rparr>)
       acmeSales [acmeSales, acmeOps] \<and>
   existingDept \<lparr>valid = False, errors = [''Department number must be unique across all companies''],
           existingDept = Some acmeSales\<rparr> = Some acmeSales"
proof -
  let ?d = "(patch (JStr ''acme'') (JNum 1))\<lparr>dept_no := JStr ''D20''\<rparr>"
  let ?r = "\<lparr>valid = False, errors = [''Department number must be unique across all companies''],
           existingDept = Some acmeSales\<rparr>"
  have cd: "company ?d = JStr ''acme''" "dept_id ?d = JNum 1" by (simp_all add: patch_def)
  have h: "getDepartment memoryLayer (company ?d) (dept_id ?d) [acmeSales, acmeOps]
     = (Inr (Some acmeSales), [acmeSales, acmeOps])"
    by (simp add: memoryLayer_def patch_def acmeSales_def)
  have t: "truthy (dept_no ?d)" by (simp add: patch_def)
  have n: "strictNeq (dept_no ?d) (getDeptNo acmeSales)"
    by (simp add: patch_def strictNeq_def getDeptNo_def acmeSales_def)
  have q: "getAllDepartment memoryLayer (company ?d) [acmeSales, acmeOps]
     = (Inr [acmeSales, acmeOps], [acmeSales, acmeOps])"
    by (simp add: memoryLayer_def patch_def acmeSales_def acmeOps_def)
  have u: "uniqueErrors ?d [acmeSales, acmeOps]
     = [''Department number must be unique across all companies'']"
    by (simp add: uniqueErrors_def isDeptNoUnique_def patch_def strictNeq_def getDeptNo_def
        getId_def acmeSales_def acmeOps_def)
  have rq: "requiredErrors ?d = []" by (simp add: requiredErrors_def patch_def)
  have v: "validateDepartmentUpdate memoryLayer (ArgObject ?d) ([], [acmeSales, acmeOps]) =
     (Inr ?r, ([GetDepartment (JStr ''acme'') (JNum 1), GetAllDepartment (JStr ''acme'')],
       [acmeSales, acmeOps]))"
    unfolding vdu_check_returns [OF h t n q, of "[]"] u rq cd by simp
  have nq: "\<not> queryThrows memoryLayer ?d acmeSales [acmeSales, acmeOps]"
    unfolding queryThrows_def q by simp
  have "existingDept ?r = (if queryThrows memoryLayer ?d acmeSales [acmeSales, acmeOps]
          then None else Some acmeSales)"
    using validateDepartmentUpdate_result_invariant [OF v] h by blast
  with nq have "existingDept ?r = Some acmeSales" by simp
  with v h nq show ?thesis unfolding cd by blast
qed

section \<open>Claim about updateDepartment\<close>

text \<open>
  C5. For every patch that passes validation and has no \<open>dept_name\<close> and no
  \<open>dept_no\<close>, the record \<open>updateDepartment\<close> passes to the data layer's update
  operation is the record the lookup returned with at most its location replaced by the
  patch's: its name, number, id and company are those of the stored record.
\<close>

theorem updateDepartment_location_only:
  assumes "validateDepartmentUpdate dl (ArgObject d) (tr, s) = (Inr r, (tr1, s1))"
    and "valid r"
    and "\<not> truthy (dept_name d)" and "\<not> truthy (dept_no d)"
  shows "\<exists>ex passed.
           getDepartment dl (company d) (dept_id d) s = (Inr (Some ex), s1) \<and>
           existingDept r = Some ex \<and>
           passed = (if truthy (location d) then setLocation (location d) ex else ex) \<and>
           updateDepartment dl (ArgObject d) (tr, s) =
             (fst (dlUpdateDepartment dl passed s1),
              (tr1 @ [UpdateDepartment passed], snd (dlUpdateDepartment dl passed s1))) \<and>
           getDeptName passed = getDeptName ex \<and> getDeptNo passed = getDeptNo ex \<and>
           getId passed = getId ex \<and> deptCompany passed = deptCompany ex"
proof -
  from valid_has_existingDept [OF assms(1,2)] obtain ex s1' where
    ex: "existingDept r = Some ex"
    and g: "getDepartment dl (company d) (dept_id d) s = (Inr (Some ex), s1')"
    by blast
  have "\<not> (truthy (dept_no d) \<and> strictNeq (dept_no d) (getDeptNo ex))"
    using assms(4) by simp
  from vdu_found_no_check [OF g this, of tr] assms(1) have s1: "s1' = s1" by simp
  define passed where "passed = (if truthy (location d) then setLocation (location d) ex else ex)"
  have ap: "applyPatch d ex = passed"
    using assms(3,4) by (simp add: applyPatch_def passed_def)
  have upd: "updateDepartment dl (ArgObject d) (tr, s) =
             (fst (dlUpdateDepartment dl passed s1),
              (tr1 @ [UpdateDepartment passed], snd (dlUpdateDepartment dl passed s1)))"
    using assms(1,2) ex ap
    by (simp add: updateDepartment_def bind_def asObject_def ret_def callUpdateDepartment_def
        invoke_def split: prod.split)
  have frame: "getDeptName passed = getDeptName ex \<and> getDeptNo passed = getDeptNo ex \<and>
           getId passed = getId ex \<and> deptCompany passed = deptCompany ex"
    by (simp add: passed_def setLocation_def getDeptName_def getDeptNo_def getId_def)
  from g s1 ex upd frame passed_def show ?thesis by blast
qed

theorem updateDepartment_location_only_witness:
  "validateDepartmentUpdate memoryLayer
      (ArgObject ((patch (JStr ''acme'') (JNum 1))\<lparr>location := JStr ''Chicago''\<rparr>)) ([], [acmeSales, acmeOps])
     = (Inr \<lparr>valid = True, errors = [], existingDept = Some acmeSales\<rparr>,
        ([GetDepartment (JStr ''acme'') (JNum 1)], [acmeSales, acmeOps])) \<and>
   updateDepartment memoryLayer
      (ArgObject ((patch (JStr ''acme'') (JNum 1))\<lparr>location := JStr ''Chicago''\<rparr>)) ([], [acmeSales, acmeOps])
     = (Inr (acmeSales\<lparr>deptLocation := JStr ''Chicago''\<rparr>),
        ([GetDepartment (JStr ''acme'') (JNum 1),
          UpdateDepartment (acmeSales\<lparr>deptLocation := JStr ''Chicago''\<rparr>)],
         [acmeSales\<lparr>deptLocation := JStr ''Chicago''\<rparr>, acmeOps])) \<and>
   getDeptName (acmeSales\<lparr>deptLocation := JStr ''Chicago''\<rparr>) = JStr ''Sales'' \<and>
   getDeptNo (acmeSales\<lparr>deptLocation := JStr ''Chicago''\<rparr>) = JStr ''D10''"
proof -
  let ?d = "(patch (JStr ''acme'') (JNum 1))\<lparr>location := JStr ''Chicago''\<rparr>"
  let ?p = "acmeSales\<lparr>deptLocation := JStr ''Chicago''\<rparr>"
  have cd: "company ?d = JStr ''acme''" "dept_id ?d = JNum 1" by (simp_all add: patch_def)
  have h: "getDepartment memoryLayer (company ?d) (dept_id ?d) [acmeSales, acmeOps]
     = (Inr (Some acmeSales), [acmeSales, acmeOps])"
    by (simp add: memoryLayer_def patch_def acmeSales_def)
  have nn: "\<not> truthy (dept_name ?d)" and no: "\<not> truthy (dept_no ?d)"
    by (simp_all add: patch_def)
  have nc: "\<not> (truthy (dept_no ?d) \<and> strictNeq (dept_no ?d) (getDeptNo acmeSales))"
    using no by simp
  have rq: "requiredErrors ?d = []" by (simp add: requiredErrors_def patch_def)
  have v: "validateDepartmentUpdate memoryLayer (ArgObject ?d) ([], [acmeSales, acmeOps])
     = (Inr \<lparr>valid = True, errors = [], existingDept = Some acmeSales\<rparr>,
        ([GetDepartment (JStr ''acme'') (JNum 1)], [acmeSales, acmeOps]))"
    unfolding vdu_found_no_check [OF h nc, of "[]"] rq cd by simp
  have vr: "valid \<lparr>valid = True, errors = [], existingDept = Some acmeSales\<rparr>" by simp
  have loc: "(if truthy (location ?d) then setLocation (location ?d) acmeSales else acmeSales) = ?p"
    by (simp add: patch_def setLocation_def)
  have dlu: "dlUpdateDepartment memoryLayer ?p [acmeSales, acmeOps] = (Inr ?p, [?p, acmeOps])"
    by (simp add: memoryLayer_def acmeSales_def acmeOps_def)
  from updateDepartment_location_only [OF v vr nn no] obtain ex passed where
    g: "getDepartment memoryLayer (company ?d) (dept_id ?d) [acmeSales, acmeOps]
          = (Inr (Some ex), [acmeSales, acmeOps])"
    and p: "passed = (if truthy (location ?d) then setLocation (location ?d) ex else ex)"
    and up: "updateDepartment memoryLayer (ArgObject ?d) ([], [acmeSales, acmeOps]) =
          (fst (dlUpdateDepartment memoryLayer passed [acmeSales, acmeOps]),
           ([GetDepartment (JStr ''acme'') (JNum 1)] @ [UpdateDepartment passed],
            snd (dlUpdateDepartment memoryLayer passed [acmeSales, acmeOps])))"
    by blast
  from g h have "ex = acmeSales" by simp
  with p loc have "passed = ?p" by simp
  with up have "updateDepartment memoryLayer (ArgObject ?d) ([], [acmeSales, acmeOps]) =
          (fst (dlUpdateDepartment memoryLayer ?p [acmeSales, acmeOps]),
           ([GetDepartment (JStr ''acme'') (JNum 1)] @ [UpdateDepartment ?p],
            snd (dlUpdateDepartment memoryLayer ?p [acmeSales, acmeOps])))"
    by simp
  then have u: "updateDepartment memoryLayer (ArgObject ?d) ([], [acmeSales, acmeOps]) =
          (Inr ?p, ([GetDepartment (JStr ''acme'') (JNum 1), UpdateDepartment ?p], [?p, acmeOps]))"
    unfolding dlu by simp
  have f: "getDeptName ?p = JStr ''Sales''" "getDeptNo ?p = JStr ''D10''"
    by (simp_all add: getDeptName_def getDeptNo_def acmeSales_def)
  from v u f show ?thesis by blast
qed

section \<open>Claim about validateManager\<close>

text \<open>
  C8, as stated: for an id other than 0, \<open>validateManager\<close> raises exactly when the
  employee lookup returns nothing. That fails when the lookup itself throws: the method
  has no \<open>try\<close>, so it raises although the lookup did not return nothing.
\<close>

theorem validateManager_counterexample:
  "\<not> strictEq (JNum 7) (JNum 0) \<and>
   getEmployee faultyLayer (JNum 7) [] = (Inl (Error ''connection lost''), []) \<and>
   Inl (Error ''connection lost'') \<noteq> (Inr None :: exn + string option) \<and>
   validateManager faultyLayer (JNum 7) ([], []) =
     (Inl (Error ''connection lost''), ([GetEmployee (JNum 7)], []))"
proof -
  have n: "\<not> strictEq (JNum 7) (JNum 0)" by simp
  have g: "getEmployee faultyLayer (JNum 7) [] = (Inl (Error ''connection lost''), [])"
    by (simp add: faultyLayer_def)
  from validateManager_lookup [OF n g, of "[]"] n g show ?thesis by simp
qed

text \<open>
  C8, amended. \<open>validateManager(0)\<close> always passes, whatever the state of the data
  layer; and for every id other than 0 the method raises exactly when the employee lookup
  for that id returns nothing or the lookup itself throws.
\<close>

theorem validateManager_raises_iff:
  assumes "getEmployee dl mngId s = (found, s1)"
  shows "validateManager dl (JNum 0) w = (Inr (), w) \<and>
         (\<not> strictEq mngId (JNum 0) \<longrightarrow>
            (isl (fst (validateManager dl mngId (tr, s))) \<longleftrightarrow> found = Inr None \<or> isl found))"
proof (intro conjI impI)
  show "validateManager dl (JNum 0) w = (Inr (), w)" by (rule validateManager_zero)
next
  assume n: "\<not> strictEq mngId (JNum 0)"
  show "isl (fst (validateManager dl mngId (tr, s))) \<longleftrightarrow> found = Inr None \<or> isl found"
    unfolding validateManager_lookup [OF n assms, of tr]
    by (cases found) (simp_all split: option.split)
qed

theorem validateManager_raises_iff_witness:
  "getEmployee memoryLayer (JNum 8) [acmeSales] = (Inr None, [acmeSales]) \<and>
   \<not> strictEq (JNum 8) (JNum 0) \<and>
   validateManager memoryLayer (JNum 0) ([], [acmeSales]) = (Inr (), ([], [acmeSales])) \<and>
   isl (fst (validateManager memoryLayer (JNum 8) ([], [acmeSales]))) \<and>
   getEmployee memoryLayer (JNum 7) [acmeSales] = (Inr (Some ''Ada''), [acmeSales]) \<and>
   \<not> strictEq (JNum 7) (JNum 0) \<and>
   \<not> isl (fst (validateManager memoryLayer (JNum 7) ([], [acmeSales])))"
proof -
  have g: "getEmployee memoryLayer (JNum 8) [acmeSales] = (Inr None, [acmeSales])"
    by (simp add: memoryLayer_def)
  have g': "getEmployee memoryLayer (JNum 7) [acmeSales] = (Inr (Some ''Ada''), [acmeSales])"
    by (simp add: memoryLayer_def)
  have n: "\<not> strictEq (JNum 8) (JNum 0)" and n': "\<not> strictEq (JNum 7) (JNum 0)" by simp_all
  from validateManager_raises_iff [OF g, of "([], [acmeSales])" "[]"] n
  have a: "validateManager memoryLayer (JNum 0) ([], [acmeSales]) = (Inr (), ([], [acmeSales]))"
    and b: "isl (fst (validateManager memoryLayer (JNum 8) ([], [acmeSales])))"
    by blast+
  from validateManager_raises_iff [OF g', of "([], [acmeSales])" "[]"] n'
  have c: "\<not> isl (fst (validateManager memoryLayer (JNum 7) ([], [acmeSales])))"
    by simp
  from g n a b g' n' c show ?thesis by blast
qed

section \<open>Claim about validateHireDate\<close>

text \<open>
  The parser accepts exactly the strings of the shape \<open>YYYY-MM-DD\<close> whose fields name a
  day of the calendar, and reads the fields as the numbers they denote.
\<close>

lemma digitVal_isDigit:
  "digitVal c = (if isDigit c then Some (digitValue c) else None)"
  by (simp add: digitVal_def isDigit_def digitValue_def)

lemma digitsVal_foldl:
  "digitsVal acc cs =
     (if list_all isDigit cs then Some (foldl (\<lambda>a c. 10 * a + digitValue c) acc cs) else None)"
  by (induction cs arbitrary: acc) (simp_all add: digitVal_isDigit)

lemma leapDay_isLeapYear: "leapDay y = (if isLeapYear y then 1 else 0)"
  using mod_chain [of y] by (auto simp: leapDay_def DaysInYear_def isLeapYear_def)

lemma validYMD_calendarDate: "validYMD y m d = calendarDate y m d"
  by (auto simp: validYMD_def calendarDate_def daysInMonth_def lastDayOfMonth_def
      leapDay_isLeapYear)

lemma shape_digit: "shape c = CHR ''9'' \<longleftrightarrow> isDigit c"
  by (simp add: shape_def)

lemma shape_hyphen: "shape c = CHR ''-'' \<longleftrightarrow> c = CHR ''-''"
  by (simp add: shape_def isDigit_def)

lemma matchesYMD_iff:
  "matchesYMD str \<longleftrightarrow>
     length str = 10 \<and> str ! 4 = CHR ''-'' \<and> str ! 7 = CHR ''-'' \<and>
     list_all isDigit (take 4 str) \<and> list_all isDigit (take 2 (drop 5 str)) \<and>
     list_all isDigit (drop 8 str)"
proof (cases "length str = 10")
  case False
  then show ?thesis
    using arg_cong [of "map shape str" "''9999-99-99''" length]
    by (auto simp: matchesYMD_def)
next
  case True
  then obtain c0 c1 c2 c3 c4 c5 c6 c7 c8 c9 where
    s: "str = [c0, c1, c2, c3, c4, c5, c6, c7, c8, c9]"
    by (auto simp: eval_nat_numeral length_Suc_conv)
  show ?thesis
    unfolding s matchesYMD_def
    by (simp add: shape_digit shape_hyphen del: One_nat_def) blast
qed

lemma parseYMD_iff:
  "parseYMD str =
     (if matchesYMD str \<and> calendarDate (yearOf str) (monthOf str) (dayOf str)
      then Some (yearOf str, monthOf str, dayOf str) else None)"
  by (simp add: parseYMD_def matchesYMD_iff digitsVal_foldl validYMD_calendarDate
      yearOf_def monthOf_def dayOf_def fieldValue_def)

text \<open>An ISO weekday of at least 6 is a Saturday or a Sunday.\<close>

lemma isoWeekday_weekend:
  "geNum (isoWeekday env (Some t)) 6 \<longleftrightarrow> getDay env t = 6 \<or> getDay env t = 0"
proof -
  have "0 \<le> getDay env t" "getDay env t < 7" by (simp_all add: getDay_def WeekDay_def)
  then show ?thesis by (auto simp: geNum_def isoWeekday_def)
qed

lemma validateHireDate_unparsable:
  assumes "\<not> (matchesYMD hireDate \<and>
             calendarDate (yearOf hireDate) (monthOf hireDate) (dayOf hireDate))"
  shows "validateHireDate env hireDate
           = Inl (Error ''Hire date must be a valid date and cannot be in the future.'')"
proof -
  from assms have "parseYMD hireDate = None" unfolding parseYMD_iff by simp
  then show ?thesis by (simp add: validateHireDate_def momentStrict_def isValid_def)
qed

lemma validateHireDate_parsed:
  assumes "matchesYMD hireDate"
    and "calendarDate (yearOf hireDate) (monthOf hireDate) (dayOf hireDate)"
  shows "validateHireDate env hireDate =
           (if now env < parsedDate env hireDate
            then Inl (Error ''Hire date must be a valid date and cannot be in the future.'')
            else if getDay env (parsedDate env hireDate) = 6 \<or>
                    getDay env (parsedDate env hireDate) = 0
            then Inl (Error ''Hire date must be a Monday through Friday. Weekends are not allowed.'')
            else Inr ())"
  using assms isoWeekday_weekend [of env "parsedDate env hireDate"]
  by (simp add: validateHireDate_def momentStrict_def isValid_def isAfter_def parseYMD_iff
      parsedDate_def Let_def)

text \<open>
  C7. \<open>validateHireDate\<close> raises if and only if the string fails strict parsing against
  \<open>YYYY-MM-DD\<close> (it has not the shape of the pattern, or its fields name no day of the
  calendar), or the parsed date, local midnight of the day the string names, lies after
  the current instant, or its ISO weekday is at least 6, which is Saturday or Sunday; on
  every other input it returns normally.
\<close>

theorem validateHireDate_raises_iff:
  "(isl (validateHireDate env hireDate) \<longleftrightarrow>
      \<not> matchesYMD hireDate \<or>
      \<not> calendarDate (yearOf hireDate) (monthOf hireDate) (dayOf hireDate) \<or>
      now env < parsedDate env hireDate \<or>
      getDay env (parsedDate env hireDate) = 6 \<or> getDay env (parsedDate env hireDate) = 0) \<and>
   (\<not> isl (validateHireDate env hireDate) \<longleftrightarrow> validateHireDate env hireDate = Inr ()) \<and>
   (matchesYMD hireDate \<and> calendarDate (yearOf hireDate) (monthOf hireDate) (dayOf hireDate) \<longrightarrow>
      getFullYear env (parsedDate env hireDate) = yearOf hireDate \<and>
      getMonth env (parsedDate env hireDate) + 1 = monthOf hireDate \<and>
      getDate env (parsedDate env hireDate) = dayOf hireDate \<and>
      getHours env (parsedDate env hireDate) = 0 \<and>
      isoWeekday env (Some (parsedDate env hireDate)) =
        Some (if getDay env (parsedDate env hireDate) = 0 then 7
              else getDay env (parsedDate env hireDate)))"
proof (intro conjI impI)
  show "isl (validateHireDate env hireDate) \<longleftrightarrow>
      \<not> matchesYMD hireDate \<or>
      \<not> calendarDate (yearOf hireDate) (monthOf hireDate) (dayOf hireDate) \<or>
      now env < parsedDate env hireDate \<or>
      getDay env (parsedDate env hireDate) = 6 \<or> getDay env (parsedDate env hireDate) = 0"
  proof (cases "matchesYMD hireDate \<and>
      calendarDate (yearOf hireDate) (monthOf hireDate) (dayOf hireDate)")
    case False
    from validateHireDate_unparsable [OF False, of env] False show ?thesis by auto
  next
    case True
    then have m: "matchesYMD hireDate"
      and c: "calendarDate (yearOf hireDate) (monthOf hireDate) (dayOf hireDate)"
      by simp_all
    show ?thesis unfolding validateHireDate_parsed [OF m c, of env] using m c by simp
  qed
next
  show "\<not> isl (validateHireDate env hireDate) \<longleftrightarrow> validateHireDate env hireDate = Inr ()"
    by (cases "validateHireDate env hireDate") simp_all
next
  assume "matchesYMD hireDate \<and>
          calendarDate (yearOf hireDate) (monthOf hireDate) (dayOf hireDate)"
  then have v: "validYMD (yearOf hireDate) (monthOf hireDate) (dayOf hireDate)"
    by (simp add: validYMD_calendarDate)
  have z: "(0::int) \<le> 0" "(0::int) \<le> 23" "(0::int) \<le> 59" by simp_all
  show "getFullYear env (parsedDate env hireDate) = yearOf hireDate"
    unfolding parsedDate_def by (rule localDateTime_fields(1) [OF v z(1,2,1,3,1,3)])
  show "getMonth env (parsedDate env hireDate) + 1 = monthOf hireDate"
    unfolding parsedDate_def using localDateTime_fields(2) [OF v z(1,2,1,3,1,3), of env] by simp
  show "getDate env (parsedDate env hireDate) = dayOf hireDate"
    unfolding parsedDate_def by (rule localDateTime_fields(3) [OF v z(1,2,1,3,1,3)])
  show "getHours env (parsedDate env hireDate) = 0"
    unfolding parsedDate_def by (rule localDateTime_fields(4) [OF v z(1,2,1,3,1,3)])
  show "isoWeekday env (Some (parsedDate env hireDate)) =
        Some (if getDay env (parsedDate env hireDate) = 0 then 7
              else getDay env (parsedDate env hireDate))"
    by (simp add: isoWeekday_def)
qed

theorem validateHireDate_raises_iff_witness:
  "matchesYMD ''2023-12-30'' \<and> calendarDate 2023 12 30 \<and>
   \<not> now friday < parsedDate friday ''2023-12-30'' \<and>
   getDay friday (parsedDate friday ''2023-12-30'') = 6 \<and>
   isl (validateHireDate friday ''2023-12-30'') \<and>
   \<not> now friday < parsedDate friday ''2023-12-31'' \<and>
   getDay friday (parsedDate friday ''2023-12-31'') = 0 \<and>
   isl (validateHireDate friday ''2023-12-31'') \<and>
   matchesYMD ''2023-02-29'' \<and> \<not> calendarDate 2023 2 29 \<and>
   isl (validateHireDate friday ''2023-02-29'') \<and>
   \<not> matchesYMD ''01/01/2024'' \<and>
   isl (validateHireDate friday ''01/01/2024'') \<and>
   matchesYMD ''2024-01-08'' \<and> calendarDate 2024 1 8 \<and>
   now friday < parsedDate friday ''2024-01-08'' \<and>
   getDay friday (parsedDate friday ''2024-01-08'') = 1 \<and>
   isl (validateHireDate friday ''2024-01-08'') \<and>
   matchesYMD ''2024-01-05'' \<and> calendarDate 2024 1 5 \<and>
   \<not> now friday < parsedDate friday ''2024-01-05'' \<and>
   getDay friday (parsedDate friday ''2024-01-05'') = 5 \<and>
   validateHireDate friday ''2024-01-05'' = Inr () \<and>
   getFullYear friday (parsedDate friday ''2024-01-05'') = 2024 \<and>
   getMonth friday (parsedDate friday ''2024-01-05'') = 0 \<and>
   getDate friday (parsedDate friday ''2024-01-05'') = 5"
proof -
  have f: "yearOf ''2023-12-30'' = 2023" "monthOf ''2023-12-30'' = 12" "dayOf ''2023-12-30'' = 30"
    "yearOf ''2023-12-31'' = 2023" "monthOf ''2023-12-31'' = 12" "dayOf ''2023-12-31'' = 31"
    "yearOf ''2023-02-29'' = 2023" "monthOf ''2023-02-29'' = 2" "dayOf ''2023-02-29'' = 29"
    "yearOf ''2024-01-08'' = 2024" "monthOf ''2024-01-08'' = 1" "dayOf ''2024-01-08'' = 8"
    "yearOf ''2024-01-05'' = 2024" "monthOf ''2024-01-05'' = 1" "dayOf ''2024-01-05'' = 5"
    by (simp_all add: yearOf_def monthOf_def dayOf_def fieldValue_def digitValue_def)
  have sat: "matchesYMD ''2023-12-30''" "calendarDate 2023 12 30"
    "\<not> now friday < parsedDate friday ''2023-12-30''"
    "getDay friday (parsedDate friday ''2023-12-30'') = 6"
    by code_simp+
  have sun: "\<not> now friday < parsedDate friday ''2023-12-31''"
    "getDay friday (parsedDate friday ''2023-12-31'') = 0"
    by code_simp+
  have feb: "matchesYMD ''2023-02-29''" "\<not> calendarDate 2023 2 29" by code_simp+
  have sl: "\<not> matchesYMD ''01/01/2024''" by code_simp
  have mon: "matchesYMD ''2024-01-08''" "calendarDate 2024 1 8"
    "now friday < parsedDate friday ''2024-01-08''"
    "getDay friday (parsedDate friday ''2024-01-08'') = 1"
    by code_simp+
  have fri: "matchesYMD ''2024-01-05''" "calendarDate 2024 1 5"
    "\<not> now friday < parsedDate friday ''2024-01-05''"
    "getDay friday (parsedDate friday ''2024-01-05'') = 5"
    by code_simp+
  have a: "isl (validateHireDate friday ''2023-12-30'')"
    using validateHireDate_raises_iff [of friday "''2023-12-30''"] sat(4) by blast
  have b: "isl (validateHireDate friday ''2023-12-31'')"
    using validateHireDate_raises_iff [of friday "''2023-12-31''"] sun(2) by blast
  have c: "isl (validateHireDate friday ''2023-02-29'')"
    using validateHireDate_raises_iff [of friday "''2023-02-29''"] feb(2) unfolding f by blast
  have d: "isl (validateHireDate friday ''01/01/2024'')"
    using validateHireDate_raises_iff [of friday "''01/01/2024''"] sl by blast
  have e: "isl (validateHireDate friday ''2024-01-08'')"
    using validateHireDate_raises_iff [of friday "''2024-01-08''"] mon(3) by blast
  have "\<not> isl (validateHireDate friday ''2024-01-05'')"
    using validateHireDate_raises_iff [of friday "''2024-01-05''"] fri unfolding f by simp
  then have g: "validateHireDate friday ''2024-01-05'' = Inr ()"
    using validateHireDate_raises_iff [of friday "''2024-01-05''"] by blast
  have h: "getFullYear friday (parsedDate friday ''2024-01-05'') = 2024"
    "getMonth friday (parsedDate friday ''2024-01-05'') + 1 = 1"
    "getDate friday (parsedDate friday ''2024-01-05'') = 5"
    using validateHireDate_raises_iff [of friday "''2024-01-05''"] fri(1,2) unfolding f
    by blast+
  from h(2) have h2: "getMonth friday (parsedDate friday ''2024-01-05'') = 0" by simp
  from sat sun feb sl mon fri a b c d e g h(1) h2 h(3) show ?thesis by blast
qed

section \<open>Claim about validateStartTime\<close>

text \<open>
  On a weekday the hour-window check of lines 122 to 125 fails exactly when the hour of
  the start time lies outside 8 to 18: the minutes are not looked at, so no start time
  from 18:00:00 to 18:59:59 fails it.
\<close>

lemma validateStartTime_hour_window:
  assumes "newDate env (replaceFirst CHR '' '' CHR ''T'' startTime) = Some t"
    and "getDay env t \<noteq> 0" and "getDay env t \<noteq> 6"
  shows "validateStartTime env startTime = Inl (Error ''Start time must be between 08:00 and 18:00.'')
           \<longleftrightarrow> getHours env t < 8 \<or> 18 < getHours env t"
  using assms by (simp add: validateStartTime_def Let_def)

lemma validateStartTime_hour_18:
  assumes "newDate env (replaceFirst CHR '' '' CHR ''T'' startTime)
             = Some (localDateTime env (y, m, d) (18, mi, s))"
    and "validYMD y m d" "0 \<le> mi" "mi \<le> 59" "0 \<le> s" "s \<le> 59"
  shows "validateStartTime env startTime
           \<noteq> Inl (Error ''Start time must be between 08:00 and 18:00.'')"
proof -
  let ?t = "localDateTime env (y, m, d) (18, mi, s)"
  have h: "getHours env ?t = 18"
    using localDateTime_fields(4) [OF assms(2) _ _ assms(3-6), of 18 env] by simp
  show ?thesis
  proof (cases "getDay env ?t = 0 \<or> getDay env ?t = 6")
    case True
    with assms(1) show ?thesis by (simp add: validateStartTime_def Let_def)
  next
    case False
    then have "getDay env ?t \<noteq> 0" "getDay env ?t \<noteq> 6" by simp_all
    from validateStartTime_hour_window [OF assms(1) this] h show ?thesis by simp
  qed
qed

lemma getHours_1801:
  "newDate friday (replaceFirst CHR '' '' CHR ''T'' ''2024-01-03 18:01:00'') = Some 1704304860000"
  "getDay friday 1704304860000 = 3" "getHours friday 1704304860000 = 18"
  by code_simp+

text \<open>
  C2. On Wednesday 2024-01-03, with the clock at Friday 2024-01-05 12:00, the start times
  08:00 and 18:00 pass and 07:59 fails the hour-window check, as the claim says; but 18:01
  passes it too, and the call returns normally, where the claim, the comment of line 121
  and the message of line 124 (between 08:00 and 18:00) say it fails.
\<close>

theorem validateStartTime_accepts_1801:
  "validateStartTime friday ''2024-01-03 18:01:00'' = Inr () \<and>
   validateStartTime friday ''2024-01-03 18:00:00'' = Inr () \<and>
   validateStartTime friday ''2024-01-03 08:00:00'' = Inr () \<and>
   validateStartTime friday ''2024-01-03 07:59:00'' =
     Inl (Error ''Start time must be between 08:00 and 18:00.'')"
proof -
  have a: "validateStartTime friday ''2024-01-03 18:01:00'' = Inr ()" by code_simp
  have b: "validateStartTime friday ''2024-01-03 18:00:00'' = Inr ()" by code_simp
  have c: "validateStartTime friday ''2024-01-03 08:00:00'' = Inr ()" by code_simp
  have d: "validateStartTime friday ''2024-01-03 07:59:00'' =
     Inl (Error ''Start time must be between 08:00 and 18:00.'')" by code_simp
  from a b c d show ?thesis by blast
qed

section \<open>Claims about validateEndTime\<close>

lemma validateEndTime_duration:
  assumes "newDate env endTime = Some e"
  shows "validateEndTime env startTime endTime =
           Inl (Error ''End time must be at least 1 hour after start time.'') \<longleftrightarrow>
         (\<exists>s. newDate env startTime = Some s \<and> e - s < 3600000)"
proof (cases "newDate env startTime")
  case None
  then show ?thesis using assms
    by (simp add: validateEndTime_def hoursBetween_def ltNum_def neNum_def Let_def)
next
  case (Some s)
  have "(of_int (e - s) / of_int (1000 * 60 * 60) < (1::rat))
          = (of_int (e - s) < (of_int 3600000 :: rat))"
    by (simp add: divide_less_eq)
  also have "\<dots> = (e - s < 3600000)"
    by (simp only: of_int_less_iff)
  finally have "(of_int (e - s) / of_int (1000 * 60 * 60) < (1::rat)) = (e - s < 3600000)" .
  then show ?thesis using assms Some
    by (simp add: validateEndTime_def hoursBetween_def ltNum_def Let_def)
qed

text \<open>
  C4. For a parseable end time, \<open>validateEndTime\<close> raises
  \<open>End time must be at least 1 hour after start time.\<close> exactly when the start time is
  parseable and the difference of the time values, end minus start, is less than one hour
  of milliseconds: a difference of exactly 60 minutes does not raise it, 59 minutes does,
  and so does a negative difference, with the same message.
\<close>

theorem validateEndTime_duration_check:
  assumes "newDate env endTime = Some e"
  shows "(validateEndTime env startTime endTime =
            Inl (Error ''End time must be at least 1 hour after start time.'') \<longleftrightarrow>
          (\<exists>s. newDate env startTime = Some s \<and> e - s < 1000 * 60 * 60)) \<and>
         (newDate env startTime = Some (e - 60 * 60000) \<longrightarrow>
            validateEndTime env startTime endTime \<noteq>
              Inl (Error ''End time must be at least 1 hour after start time.'')) \<and>
         (newDate env startTime = Some (e - 59 * 60000) \<longrightarrow>
            validateEndTime env startTime endTime =
              Inl (Error ''End time must be at least 1 hour after start time.'')) \<and>
         (\<forall>s. newDate env startTime = Some s \<and> e < s \<longrightarrow>
            validateEndTime env startTime endTime =
              Inl (Error ''End time must be at least 1 hour after start time.''))"
  using validateEndTime_duration [OF assms, of startTime] by auto

theorem validateEndTime_duration_check_witness:
  "newDate friday ''2024-01-03T10:00:00'' = Some 1704276000000 \<and>
   newDate friday ''2024-01-03T09:00:00'' = Some (1704276000000 - 60 * 60000) \<and>
   validateEndTime friday ''2024-01-03T09:00:00'' ''2024-01-03T10:00:00'' \<noteq>
     Inl (Error ''End time must be at least 1 hour after start time.'') \<and>
   newDate friday ''2024-01-03T09:01:00'' = Some (1704276000000 - 59 * 60000) \<and>
   validateEndTime friday ''2024-01-03T09:01:00'' ''2024-01-03T10:00:00'' =
     Inl (Error ''End time must be at least 1 hour after start time.'') \<and>
   newDate friday ''2024-01-03T11:00:00'' = Some 1704279600000 \<and>
   validateEndTime friday ''2024-01-03T11:00:00'' ''2024-01-03T10:00:00'' =
     Inl (Error ''End time must be at least 1 hour after start time.'')"
proof -
  have e: "newDate friday ''2024-01-03T10:00:00'' = Some 1704276000000" by code_simp
  have s60: "newDate friday ''2024-01-03T09:00:00'' = Some (1704276000000 - 60 * 60000)"
    by code_simp
  have s59: "newDate friday ''2024-01-03T09:01:00'' = Some (1704276000000 - 59 * 60000)"
    by code_simp
  have late: "newDate friday ''2024-01-03T11:00:00'' = Some 1704279600000" by code_simp
  have a: "validateEndTime friday ''2024-01-03T09:00:00'' ''2024-01-03T10:00:00'' \<noteq>
     Inl (Error ''End time must be at least 1 hour after start time.'')"
    using validateEndTime_duration_check [OF e, of "''2024-01-03T09:00:00''"] s60 by blast
  have b: "validateEndTime friday ''2024-01-03T09:01:00'' ''2024-01-03T10:00:00'' =
     Inl (Error ''End time must be at least 1 hour after start time.'')"
    using validateEndTime_duration_check [OF e, of "''2024-01-03T09:01:00''"] s59 by blast
  have "(1704276000000::int) < 1704279600000" by simp
  with late have c: "validateEndTime friday ''2024-01-03T11:00:00'' ''2024-01-03T10:00:00'' =
     Inl (Error ''End time must be at least 1 hour after start time.'')"
    using validateEndTime_duration_check [OF e, of "''2024-01-03T11:00:00''"] by blast
  from e s60 a s59 b late c show ?thesis by blast
qed

text \<open>
  C9. For a parseable end time and an unparsable start time, the duration check does not
  fire (a \<open>NaN\<close> difference is not less than 1), no error about the start time is
  reported, and the call raises \<open>End time must be on the same day as start time.\<close>
\<close>

theorem validateEndTime_unparsable_start:
  assumes "newDate env endTime = Some e" and "newDate env startTime = None"
  shows "validateEndTime env startTime endTime =
           Inl (Error ''End time must be on the same day as start time.'') \<and>
         \<not> ltNum (hoursBetween (newDate env endTime) (newDate env startTime)) 1"
  using assms
  by (simp add: validateEndTime_def hoursBetween_def ltNum_def neNum_def Let_def)

theorem validateEndTime_unparsable_start_witness:
  "newDate friday ''2024-01-03T10:00:00'' = Some 1704276000000 \<and>
   newDate friday ''not a time'' = None \<and>
   validateEndTime friday ''not a time'' ''2024-01-03T10:00:00'' =
     Inl (Error ''End time must be on the same day as start time.'')"
proof -
  have e: "newDate friday ''2024-01-03T10:00:00'' = Some 1704276000000" by code_simp
  have s: "newDate friday ''not a time'' = None" by code_simp
  from validateEndTime_unparsable_start [OF e s] e s show ?thesis by blast
qed

end
